theory Spec2Isabelle
  imports Complex_Main
begin

section \<open>JavaScript strings and numbers\<close>

text \<open>
  A JavaScript string is a sequence of UTF-16 code units. The model uses \<open>string\<close>,
  whose characters are read as the code units U+0000 to U+00FF (Latin-1, which holds
  Spanish text). On that range \<open>String.prototype.toLowerCase\<close> maps A-Z and the
  accented capitals U+00C0 to U+00DE (the multiplication sign U+00D7 apart) to the code
  unit 32 above, and leaves every other code unit alone. Numbers are mathematical
  integers (exact for a double below \<open>2^53\<close>); \<open>NaN\<close> and \<open>undefined\<close> are \<open>None\<close>.
\<close>

definition lower_char :: "char \<Rightarrow> char" where
  "lower_char c =
     (let n = (of_char c :: nat)
      in if (65 \<le> n \<and> n \<le> 90) \<or> (192 \<le> n \<and> n \<le> 222 \<and> n \<noteq> 215)
         then char_of (n + 32) else c)"

definition toLowerCase :: "string \<Rightarrow> string" where
  "toLowerCase s = map lower_char s"

text \<open>\<open>s.startsWith(t)\<close> and \<open>s.includes(t)\<close>: \<open>t\<close> occurs in \<open>s\<close> as a contiguous run.\<close>

fun startsWith :: "string \<Rightarrow> string \<Rightarrow> bool" where
  "startsWith s [] = True"
| "startsWith [] (c # t) = False"
| "startsWith (d # s) (c # t) = (d = c \<and> startsWith s t)"

fun str_includes :: "string \<Rightarrow> string \<Rightarrow> bool" where
  "str_includes [] t = (t = [])"
| "str_includes (d # s) t = (startsWith (d # s) t \<or> str_includes s t)"

text \<open>\<open>xs.join(sep)\<close>.\<close>

fun join :: "string \<Rightarrow> string list \<Rightarrow> string" where
  "join sep [] = []"
| "join sep [x] = x"
| "join sep (x # y # ys) = x @ sep @ join sep (y # ys)"

definition is_digit :: "char \<Rightarrow> bool" where
  "is_digit c = (48 \<le> (of_char c :: nat) \<and> (of_char c :: nat) \<le> 57)"

definition is_space :: "char \<Rightarrow> bool" where
  "is_space c = ((of_char c :: nat) \<in> {9, 10, 11, 12, 13, 32, 160})"

definition radix_digit :: "nat \<Rightarrow> char \<Rightarrow> nat option" where
  "radix_digit radix c =
     (let n = (of_char c :: nat);
          v = (if 48 \<le> n \<and> n \<le> 57 then Some (n - 48)
               else if 97 \<le> n \<and> n \<le> 122 then Some (n - 87)
               else if 65 \<le> n \<and> n \<le> 90 then Some (n - 55)
               else None)
      in case v of None \<Rightarrow> None | Some d \<Rightarrow> if d < radix then Some d else None)"

text \<open>
  \<open>parseInt(s)\<close> with no radix: leading white space is skipped, a sign is read, a
  \<open>0x\<close> prefix selects base 16, and the longest run of digits of the base is the value;
  with no digit the result is \<open>NaN\<close>.
\<close>

definition parseInt :: "string \<Rightarrow> int option" where
  "parseInt s =
     (let s1 = dropWhile is_space s;
          neg = (case s1 of c # _ \<Rightarrow> c = CHR ''-'' | [] \<Rightarrow> False);
          s2 = (case s1 of c # r \<Rightarrow> if c = CHR ''-'' \<or> c = CHR ''+'' then r else s1 | [] \<Rightarrow> s1);
          hex = (startsWith s2 ''0x'' \<or> startsWith s2 ''0X'');
          radix = (if hex then 16 else 10);
          s3 = (if hex then drop 2 s2 else s2);
          ds = takeWhile (\<lambda>c. radix_digit radix c \<noteq> None) s3;
          v = foldl (\<lambda>a c. a * radix + (case radix_digit radix c of Some d \<Rightarrow> d | None \<Rightarrow> 0)) 0 ds
      in if ds = [] then None else Some (if neg then - int v else int v))"

text \<open>\<open>Math.min(...ps)\<close> and \<open>Math.max(...ps)\<close>: \<open>NaN\<close> as soon as one argument is.
  With no argument JavaScript returns an infinity, which the callers below never ask for
  (\<open>match\<close> returns \<open>null\<close>, not an empty array); the model gives \<open>None\<close> there.\<close>

fun Math_min :: "int option list \<Rightarrow> int option" where
  "Math_min [] = None"
| "Math_min [p] = p"
| "Math_min (p # q # ps) =
     (case (p, Math_min (q # ps)) of (Some a, Some b) \<Rightarrow> Some (min a b) | _ \<Rightarrow> None)"

fun Math_max :: "int option list \<Rightarrow> int option" where
  "Math_max [] = None"
| "Math_max [p] = p"
| "Math_max (p # q # ps) =
     (case (p, Math_max (q # ps)) of (Some a, Some b) \<Rightarrow> Some (max a b) | _ \<Rightarrow> None)"

text \<open>
  Arithmetic on numbers is arithmetic on doubles. \<open>round_to_double\<close> rounds an integer
  to the nearest double, a tie going to the even significand of 53 bits; every integer
  up to \<open>2^53\<close> in magnitude is a double. \<open>js_plus x y\<close> is \<open>x + y\<close> for integer-valued
  doubles \<open>x\<close> and \<open>y\<close> (a sum beyond the largest double does not arise from adding 1).
\<close>

fun bitlen :: "nat \<Rightarrow> nat" where
  "bitlen n = (if n = 0 then 0 else Suc (bitlen (n div 2)))"

declare bitlen.simps [simp del]

definition round_to_double :: "int \<Rightarrow> int" where
  "round_to_double v =
     (let a = nat (abs v)
      in if a \<le> 2 ^ 53 then v
         else (let e = bitlen a - 53;
                   q = a div 2 ^ e;
                   r = a mod 2 ^ e;
                   half = 2 ^ (e - 1);
                   q' = (if half < r \<or> (r = half \<and> odd q) then q + 1 else q)
               in sgn v * int (q' * 2 ^ e)))"

definition js_plus :: "int \<Rightarrow> int \<Rightarrow> int" where
  "js_plus x y = round_to_double (x + y)"

section \<open>The price pattern of messageProtocol.ts\<close>

text \<open>
  \<open>text.match(/(\d{1,3}(?:[.,]\d{3})*)/g)\<close>. At a digit the pattern takes up to three
  digits, then as many groups of a separator and exactly three digits as follow; both
  parts are greedy and nothing follows them, so the first try succeeds. The search
  goes on after the match. \<open>match\<close> returns \<open>null\<close> when nothing matched.
\<close>

fun price_groups :: "string \<Rightarrow> string" where
  "price_groups (c # d1 # d2 # d3 # rest) =
     (if (c = CHR ''.'' \<or> c = CHR '','') \<and> is_digit d1 \<and> is_digit d2 \<and> is_digit d3
      then c # d1 # d2 # d3 # price_groups rest else [])"
| "price_groups s = []"

definition price_match_here :: "string \<Rightarrow> string option" where
  "price_match_here s =
     (let ds = takeWhile is_digit (take 3 s)
      in if ds = [] then None else Some (ds @ price_groups (drop (length ds) s)))"

function price_match_all :: "string \<Rightarrow> string list" where
  "price_match_all [] = []"
| "price_match_all (c # cs) =
     (case price_match_here (c # cs) of
        None \<Rightarrow> price_match_all cs
      | Some m \<Rightarrow> m # price_match_all (drop (length m) (c # cs)))"
  by pat_completeness auto
termination
proof (relation "measure length")
  show "wf (measure length)" by simp
next
  fix c :: char and cs :: string
  show "(cs, c # cs) \<in> measure length" by simp
next
  fix c :: char and cs m :: string
  assume "price_match_here (c # cs) = Some m"
  then have "m \<noteq> []"
    by (auto simp: price_match_here_def Let_def split: if_splits)
  then show "(drop (length m) (c # cs), c # cs) \<in> measure length"
    by (cases m) auto
qed

definition match_prices :: "string \<Rightarrow> string list option" where
  "match_prices s = (case price_match_all s of [] \<Rightarrow> None | m # ms \<Rightarrow> Some (m # ms))"

text \<open>\<open>p.replace(/[.,]/g, '')\<close>.\<close>

definition strip_separators :: "string \<Rightarrow> string" where
  "strip_separators p = filter (\<lambda>c. c \<noteq> CHR ''.'' \<and> c \<noteq> CHR '','') p"

section \<open>messageProtocol.ts: intent and context heuristic\<close>

datatype intent_kind = Search | Compare | Question | Purchase | Support

record priceRange =
  range_min :: "int option"
  range_max :: "int option"

record entities =
  products :: "string list option"
  brands :: "string list option"
  features :: "string list option"
  priceRange :: "priceRange option"
  category :: "string option"

record UserIntent =
  primary :: intent_kind
  secondary :: "string list option"
  confidence :: rat
  entities :: entities

datatype agent_action = ActSearch | ActQuestion | ActRecommendation | ActClarification | ActComparison

datatype satisfaction = High | Medium | Low

datatype progress = TowardsPurchase | TowardsResearch | TowardsComparison

datatype search_phase = Discovery | Narrowing | Comparison | Decision

datatype shopping_behavior = BudgetConscious | PremiumSeeker | FeatureFocused

datatype criterion = Num "int option" | Str string | StrList "string list"

record userProfile =
  preferredBrands :: "string list option"
  budgetRange :: "(int \<times> int) option"
  previousPurchases :: "string list option"
  shoppingBehavior :: "shopping_behavior option"

record currentSearch =
  search_category :: "string option"
  criteria :: "(string \<times> criterion) list"
  phase :: search_phase
  missingInfo :: "string list"

record conversationState =
  turnCount :: int
  lastAgentAction :: agent_action
  userSatisfaction :: "satisfaction option"
  progressTowards :: progress

record productsContext =
  lastSearchResults :: int
  viewedProducts :: "string list"
  comparedProducts :: "string list"
  addedToCart :: "string list"

record ConversationContext =
  userProfile :: "userProfile option"
  currentSearch :: "currentSearch option"
  conversationState :: conversationState
  productsContext :: "productsContext option"

text \<open>The two fixed lists \<open>analyzeUserIntent\<close> searches the text for.\<close>

definition categories :: "string list" where
  "categories = [''televisor'', ''celular'', ''laptop'', ''gaming'', ''audio'', ''electrodomestico'']"

definition brand_names :: "string list" where
  "brand_names = [''samsung'', ''lg'', ''sony'', ''apple'', ''lenovo'', ''hp'', ''dell'']"

text \<open>The \<open>if\<close> chain of \<open>analyzeUserIntent\<close> over the lower-cased text: the primary
  intent and the confidence, which start as \<open>search\<close> and 0.7.\<close>

definition classify :: "string \<Rightarrow> intent_kind \<times> rat" where
  "classify txt =
     (if str_includes txt ''compar'' \<or> str_includes txt ''diferencia'' \<or> str_includes txt ''vs''
        then (Compare, 9 / 10)
      else if str_includes txt ''comprar'' \<or> str_includes txt ''precio'' \<or> str_includes txt ''carrito''
        then (Purchase, 85 / 100)
      else if str_includes txt ''?'' \<or> str_includes txt ''como'' \<or> str_includes txt ''que es''
        then (Question, 8 / 10)
      else if str_includes txt ''busco'' \<or> str_includes txt ''necesito'' \<or> str_includes txt ''quiero''
        then (Search, 9 / 10)
      else (Search, 7 / 10))"

definition extract_priceRange :: "string \<Rightarrow> priceRange option" where
  "extract_priceRange txt =
     (case match_prices txt of
        None \<Rightarrow> None
      | Some priceMatch \<Rightarrow>
          (let prices = map (\<lambda>p. parseInt (strip_separators p)) priceMatch
           in Some \<lparr>range_min = Math_min prices, range_max = Math_max prices\<rparr>))"

definition analyzeUserIntent :: "string \<Rightarrow> UserIntent" where
  "analyzeUserIntent input =
     (let txt = toLowerCase input
      in \<lparr>primary = fst (classify txt),
          secondary = None,
          confidence = snd (classify txt),
          entities =
            \<lparr>products = None,
             brands = Some (filter (\<lambda>brand. str_includes txt brand) brand_names),
             features = None,
             priceRange = extract_priceRange txt,
             category = find (\<lambda>cat. str_includes txt cat) categories\<rparr>\<rparr>)"

definition determineAgentAction :: "UserIntent \<Rightarrow> agent_action" where
  "determineAgentAction intent =
     (case primary intent of
        Search \<Rightarrow> ActSearch
      | Compare \<Rightarrow> ActComparison
      | Question \<Rightarrow> ActClarification
      | _ \<Rightarrow> ActRecommendation)"

definition determineProgress :: "UserIntent \<Rightarrow> string \<Rightarrow> progress" where
  "determineProgress intent input =
     (if primary intent = Purchase \<or> str_includes input ''comprar'' then TowardsPurchase
      else if primary intent = Compare then TowardsComparison
      else TowardsResearch)"

definition assessSatisfaction :: "string \<Rightarrow> satisfaction" where
  "assessSatisfaction input =
     (let txt = toLowerCase input
      in if list_ex (\<lambda>word. str_includes txt word)
              [''bien'', ''perfecto'', ''excelente'', ''gracias'', ''bueno''] then High
         else if list_ex (\<lambda>word. str_includes txt word)
              [''no'', ''mal'', ''problema'', ''error'', ''confund''] then Low
         else Medium)"

definition determineSearchPhase :: "int \<Rightarrow> search_phase" where
  "determineSearchPhase n =
     (if n \<le> 2 then Discovery
      else if n \<le> 4 then Narrowing
      else if n \<le> 6 then Comparison
      else Decision)"

text \<open>A string list is falsy under \<open>?.length\<close> when it is undefined or empty; a string
  is falsy when it is undefined or empty.\<close>

definition has_length :: "'a list option \<Rightarrow> bool" where
  "has_length xs = (case xs of None \<Rightarrow> False | Some ys \<Rightarrow> ys \<noteq> [])"

definition extractCriteria :: "string \<Rightarrow> UserIntent \<Rightarrow> (string \<times> criterion) list" where
  "extractCriteria input intent =
     (let txt = toLowerCase input
      in (case priceRange (entities intent) of
            None \<Rightarrow> []
          | Some r \<Rightarrow> [(''presupuesto_max'', Num (range_max r)), (''presupuesto_min'', Num (range_min r))])
         @ (case brands (entities intent) of
              None \<Rightarrow> []
            | Some bs \<Rightarrow> if bs \<noteq> [] then [(''marcas_preferidas'', StrList bs)] else [])
         @ (if str_includes txt ''trabajo'' \<or> str_includes txt ''oficina''
              then [(''uso_principal'', Str ''trabajo'')]
            else if str_includes txt ''gaming'' \<or> str_includes txt ''juego''
              then [(''uso_principal'', Str ''gaming'')]
            else if str_includes txt ''estudio'' \<or> str_includes txt ''universidad''
              then [(''uso_principal'', Str ''estudio'')]
            else []))"

definition identifyMissingInfo :: "UserIntent \<Rightarrow> string list" where
  "identifyMissingInfo intent =
     (if has_length (category (entities intent)) then [] else [''categoria''])
     @ (if priceRange (entities intent) = None then [''presupuesto''] else [])
     @ (if primary intent = Search \<and> \<not> has_length (features (entities intent))
        then [''uso_principal''] else [])"

text \<open>
  \<open>updateConversationContext\<close>: the previous context is spread into the new one and the
  conversation state is replaced; \<open>(turnCount || 0) + 1\<close> reads 0 for a missing context
  and for a turn count of 0, and adds in doubles. The turn count is an integer-valued
  double. The assignment to \<open>this.currentContext\<close> stores the value that is returned.
\<close>

definition updateConversationContext ::
    "string \<Rightarrow> UserIntent \<Rightarrow> ConversationContext option \<Rightarrow> ConversationContext" where
  "updateConversationContext userInput intent previousContext =
     (let st = \<lparr>turnCount =
                  js_plus
                    (case previousContext of
                       None \<Rightarrow> 0
                     | Some p \<Rightarrow> if turnCount (conversationState p) = 0 then 0
                                else turnCount (conversationState p))
                    1,
                lastAgentAction = determineAgentAction intent,
                userSatisfaction = Some (assessSatisfaction userInput),
                progressTowards = determineProgress intent userInput\<rparr>;
          ctx = (case previousContext of
                   None \<Rightarrow> \<lparr>userProfile = None, currentSearch = None,
                             conversationState = st, productsContext = None\<rparr>
                 | Some p \<Rightarrow> p\<lparr>conversationState := st\<rparr>)
      in if primary intent = Search
         then ctx\<lparr>currentSearch :=
                Some \<lparr>search_category = category (entities intent),
                      criteria = extractCriteria userInput intent,
                      phase = determineSearchPhase (turnCount (conversationState ctx)),
                      missingInfo = identifyMissingInfo intent\<rparr>\<rparr>
         else ctx)"

text \<open>
  \<open>generateAgentInstructions\<close>: \<open>lastSearchResults\<close> is falsy when the products context
  is missing or the count is 0.
\<close>

definition generateAgentInstructions :: "ConversationContext \<Rightarrow> UserIntent \<Rightarrow> string list" where
  "generateAgentInstructions ctx intent =
     (case currentSearch ctx of
        None \<Rightarrow> []
      | Some cs \<Rightarrow>
          if primary intent = Search \<and> missingInfo cs \<noteq> []
          then [''ASK_FOR: '' @ join '', '' (missingInfo cs)] else [])
     @ (if turnCount (conversationState ctx) > 5
           \<and> (case productsContext ctx of None \<Rightarrow> True | Some pc \<Rightarrow> lastSearchResults pc = 0)
        then [''SUGGEST_ALTERNATIVE_APPROACH''] else [])
     @ (if confidence intent < 6 / 10 then [''CLARIFY_USER_INTENT''] else [])"

text \<open>
  \<open>createStructuredMessage\<close> computes the intent of the input and the context that
  follows the previous one; the pair is the \<open>intent\<close> and \<open>context\<close> metadata of the
  message it returns. \<open>chain\<close> feeds each call the context the call before produced.
\<close>

definition createStructuredMessage ::
    "string \<Rightarrow> ConversationContext option \<Rightarrow> UserIntent \<times> ConversationContext" where
  "createStructuredMessage userInput previousContext =
     (let intent = analyzeUserIntent userInput
      in (intent, updateConversationContext userInput intent previousContext))"

fun chain :: "ConversationContext option \<Rightarrow> string list \<Rightarrow> ConversationContext option" where
  "chain prev [] = prev"
| "chain prev (i # inputs) = chain (Some (snd (createStructuredMessage i prev))) inputs"

text \<open>The context the constructor of \<open>MessageProtocolService\<close> starts from.\<close>

definition initial_context :: ConversationContext where
  "initial_context =
     \<lparr>userProfile = None, currentSearch = None,
      conversationState = \<lparr>turnCount = 0, lastAgentAction = ActSearch,
                            userSatisfaction = None, progressTowards = TowardsResearch\<rparr>,
      productsContext = None\<rparr>"

section \<open>api.ts: the data of the backend and of the chat\<close>

datatype confidence_label = HIGH | MEDIUM | LOW

record BackendProduct =
  product_id :: string
  title :: string
  price :: string
  product_type :: string
  brand :: "string option"
  product_features :: "string option"
  image :: "string option"
  rating :: "rat option"
  availability :: "bool option"

record BackendResponse =
  message :: string
  resp_confidence :: confidence_label
  responseTime :: int
  resp_products :: "BackendProduct list option"
  resp_suggestions :: "string list option"
  success :: bool
  agentType :: string
  resp_phase :: "string option"
  resp_sessionId :: "string option"

section \<open>chatService.ts: the retrying request client\<close>

record ChatServiceConfig =
  baseUrl :: string
  timeout :: nat
  retries :: int

record ChatService =
  config :: ChatServiceConfig
  retryCount :: nat

datatype error_type = Network | Server | RateLimit | Validation | Unknown

text \<open>
  The user-facing texts of \<open>analyzeError\<close> are fixed Spanish literals with emoji; the
  model names each literal. \<open>MsgServerError\<close> carries the status code the text shows.
\<close>

datatype user_message =
    MsgNoConnection | MsgTooManyRequests | MsgServerTrouble | MsgInvalidMessage
  | MsgServiceUnavailable | MsgServerError "int option" | MsgTookTooLong
  | MsgInvalidResponse | MsgUnexpected

record ErrorContext =
  error_type :: error_type
  statusCode :: "int option"
  retryable :: bool
  userMessage :: user_message
  technicalMessage :: string

text \<open>
  What a \<open>catch\<close> receives: an \<open>Error\<close> object with its name and message, or any other
  value, given by what \<open>toString()\<close> returns for it (\<open>None\<close> for \<open>null\<close> and
  \<open>undefined\<close>).
\<close>

datatype thrown = Error string string | Value "string option"

text \<open>
  What one call of \<open>fetch\<close> does: it rejects, or it resolves to a response with a
  status, a status text and a body. Reading the body as JSON rejects, or gives data
  without a string \<open>message\<close>, or gives a payload. An abort by the timeout is a
  rejection.
\<close>

datatype response_body = BodyRejects thrown | BodyInvalid | BodyOk BackendResponse

datatype fetch_outcome = FetchRejects thrown | FetchResponds nat string response_body

text \<open>The decimal digits of a number, as a template literal prints it.\<close>

definition digit_char :: "nat \<Rightarrow> char" where
  "digit_char d = ''0123456789'' ! d"

fun decimal :: "nat \<Rightarrow> string" where
  "decimal n = (if n < 10 then [digit_char n] else decimal (n div 10) @ [digit_char (n mod 10)])"

declare decimal.simps [simp del]

definition response_ok :: "nat \<Rightarrow> bool" where
  "response_ok status = (200 \<le> status \<and> status \<le> 299)"

definition makeRequest :: "fetch_outcome \<Rightarrow> thrown + BackendResponse" where
  "makeRequest outcome =
     (case outcome of
        FetchRejects e \<Rightarrow> Inl e
      | FetchResponds status statusText body \<Rightarrow>
          if \<not> response_ok status
          then Inl (Error ''Error'' (''HTTP_'' @ decimal status @ '': '' @ statusText))
          else (case body of
                  BodyRejects e \<Rightarrow> Inl e
                | BodyInvalid \<Rightarrow> Inl (Error ''Error'' ''INVALID_RESPONSE: Missing required fields'')
                | BodyOk data \<Rightarrow> Inr data))"

text \<open>\<open>s.split(sep)[1]\<close>: what stands between the first and the second \<open>sep\<close>;
  \<open>undefined\<close> when \<open>sep\<close> does not occur.\<close>

fun after_first :: "string \<Rightarrow> string \<Rightarrow> string option" where
  "after_first sep [] = None"
| "after_first sep (c # s) =
     (if startsWith (c # s) sep then Some (drop (length sep) (c # s)) else after_first sep s)"

fun before_first :: "string \<Rightarrow> string \<Rightarrow> string" where
  "before_first sep [] = []"
| "before_first sep (c # s) = (if startsWith (c # s) sep then [] else c # before_first sep s)"

definition split_second :: "string \<Rightarrow> string \<Rightarrow> string option" where
  "split_second sep s = map_option (before_first sep) (after_first sep s)"

definition error_toString :: "thrown \<Rightarrow> string option" where
  "error_toString e =
     (case e of
        Error name msg \<Rightarrow> Some (if msg = [] then name else if name = [] then msg else name @ '': '' @ msg)
      | Value v \<Rightarrow> v)"

definition unknown_error :: "thrown \<Rightarrow> ErrorContext" where
  "unknown_error e =
     \<lparr>error_type = Unknown, statusCode = None, retryable = False, userMessage = MsgUnexpected,
      technicalMessage = (case error_toString e of
                            None \<Rightarrow> ''Unknown error''
                          | Some t \<Rightarrow> if t = [] then ''Unknown error'' else t)\<rparr>"

definition at_least_500 :: "int option \<Rightarrow> bool" where
  "at_least_500 code = (case code of None \<Rightarrow> False | Some n \<Rightarrow> 500 \<le> n)"

definition analyzeError :: "thrown \<Rightarrow> ErrorContext" where
  "analyzeError e =
     (case e of
        Value v \<Rightarrow> unknown_error e
      | Error name msg \<Rightarrow>
          if str_includes msg ''fetch'' \<or> str_includes msg ''NetworkError''
          then \<lparr>error_type = Network, statusCode = None, retryable = True,
                 userMessage = MsgNoConnection, technicalMessage = msg\<rparr>
          else if str_includes msg ''HTTP_''
          then (let code = (case split_second ''HTTP_'' msg of None \<Rightarrow> None | Some t \<Rightarrow> parseInt t)
                in if code = Some 429
                   then \<lparr>error_type = RateLimit, statusCode = code, retryable = True,
                          userMessage = MsgTooManyRequests, technicalMessage = msg\<rparr>
                   else if at_least_500 code
                   then \<lparr>error_type = Server, statusCode = code, retryable = True,
                          userMessage = MsgServerTrouble, technicalMessage = msg\<rparr>
                   else if code = Some 400
                   then \<lparr>error_type = Validation, statusCode = code, retryable = False,
                          userMessage = MsgInvalidMessage, technicalMessage = msg\<rparr>
                   else if code = Some 404
                   then \<lparr>error_type = Server, statusCode = code, retryable = False,
                          userMessage = MsgServiceUnavailable, technicalMessage = msg\<rparr>
                   else \<lparr>error_type = Server, statusCode = code, retryable = at_least_500 code,
                          userMessage = MsgServerError code, technicalMessage = msg\<rparr>)
          else if str_includes msg ''aborted'' \<or> str_includes msg ''timeout''
          then \<lparr>error_type = Network, statusCode = None, retryable = True,
                 userMessage = MsgTookTooLong, technicalMessage = msg\<rparr>
          else if str_includes msg ''INVALID_RESPONSE''
          then \<lparr>error_type = Validation, statusCode = None, retryable = False,
                 userMessage = MsgInvalidResponse, technicalMessage = msg\<rparr>
          else unknown_error e)"

text \<open>
  The result of \<open>sendMessage\<close>: the payload with \<open>responseTime\<close> and \<open>success: true\<close>
  set, or the structured error response, which \<open>errorContext\<close> and the response time
  determine (its message is \<open>userMessage\<close>, its suggestions the fixed list of
  \<open>getErrorSuggestions\<close> for the error type, \<open>success\<close> is false).
\<close>

datatype send_result = Success BackendResponse | Failure ErrorContext int

text \<open>
  The service with what an observer sees of it: \<open>requests\<close> counts the calls of
  \<open>makeRequest\<close> made so far and \<open>delays\<close> lists the arguments of \<open>delay\<close> (in
  milliseconds) in order. The transport gives, for the k-th request made through the
  instance, the time it took and what \<open>fetch\<close> did.
\<close>

record world =
  svc :: ChatService
  requests :: nat
  delays :: "nat list"

type_synonym transport = "nat \<Rightarrow> int \<times> fetch_outcome"

function sendMessage :: "transport \<Rightarrow> world \<Rightarrow> send_result \<times> world" where
  "sendMessage tr w =
     (case makeRequest (snd (tr (requests w))) of
        Inr response \<Rightarrow>
          (Success (response\<lparr>responseTime := fst (tr (requests w)), success := True\<rparr>),
           w\<lparr>svc := (svc w)\<lparr>retryCount := 0\<rparr>, requests := requests w + 1\<rparr>)
      | Inl e \<Rightarrow>
          if retryable (analyzeError e) \<and> int (retryCount (svc w)) < retries (config (svc w))
          then sendMessage tr
                 (w\<lparr>svc := (svc w)\<lparr>retryCount := retryCount (svc w) + 1\<rparr>,
                    requests := requests w + 1,
                    delays := delays w @ [2 ^ (retryCount (svc w) + 1) * 1000]\<rparr>)
          else (Failure (analyzeError e) (fst (tr (requests w))), w\<lparr>requests := requests w + 1\<rparr>))"
  by pat_completeness auto
termination
  by (relation "measure (\<lambda>(tr, w). nat (retries (config (svc w)) - int (retryCount (svc w))))") auto

declare sendMessage.simps [simp del]

text \<open>Calls of \<open>sendMessage\<close> made one after the other on the same instance.\<close>

fun send_all :: "transport \<Rightarrow> world \<Rightarrow> nat \<Rightarrow> send_result list \<times> world" where
  "send_all tr w 0 = ([], w)"
| "send_all tr w (Suc n) =
     (let (r, w1) = sendMessage tr w; (rs, w2) = send_all tr w1 n in (r # rs, w2))"

definition is_failure :: "send_result \<Rightarrow> bool" where
  "is_failure r = (case r of Success p \<Rightarrow> False | Failure e t \<Rightarrow> True)"

text \<open>\<open>new ChatService(config)\<close>: the retry counter starts at 0, nothing was requested.\<close>

definition new_ChatService :: "ChatServiceConfig \<Rightarrow> world" where
  "new_ChatService cfg = \<lparr>svc = \<lparr>config = cfg, retryCount = 0\<rparr>, requests = 0, delays = []\<rparr>"

text \<open>The request with index \<open>k\<close> fails and \<open>analyzeError\<close> classifies the failure retryable.\<close>

definition fails_retryably :: "transport \<Rightarrow> nat \<Rightarrow> bool" where
  "fails_retryably tr k =
     (case makeRequest (snd (tr k)) of Inl e \<Rightarrow> retryable (analyzeError e) | Inr p \<Rightarrow> False)"

section \<open>api.ts: session id and chat history in localStorage\<close>

text \<open>
  A \<open>Date\<close> is its time value, the milliseconds since the epoch; an invalid date is not
  a value of the model. In a message held in memory the timestamp is a \<open>Date\<close>
  (\<open>int Message\<close>); in the JSON text of the history it is the string
  \<open>Date.prototype.toJSON\<close> wrote (\<open>string Message\<close>). An optional field that is
  \<open>undefined\<close> is \<open>None\<close>; \<open>JSON.stringify\<close> leaves it out and \<open>JSON.parse\<close> does not bring
  it back, which is \<open>None\<close> again.
\<close>

datatype sender = User | Assistant | System

record 't Message =
  msg_id :: string
  msg_text :: string
  sender :: sender
  timestamp :: 't
  msg_confidence :: "confidence_label option"
  msg_responseTime :: "int option"
  msg_suggestions :: "string list option"
  isError :: "bool option"
  msg_products :: "BackendProduct list option"

text \<open>\<open>{...msg, timestamp: f(msg.timestamp)}\<close>.\<close>

definition with_timestamp :: "('a \<Rightarrow> 'b) \<Rightarrow> 'a Message \<Rightarrow> 'b Message" where
  "with_timestamp f m =
     \<lparr>msg_id = msg_id m, msg_text = msg_text m, sender = sender m, timestamp = f (timestamp m),
      msg_confidence = msg_confidence m, msg_responseTime = msg_responseTime m,
      msg_suggestions = msg_suggestions m, isError = isError m, msg_products = msg_products m\<rparr>"

record chat_history =
  h_sessionId :: string
  h_messages :: "string Message list"
  lastUpdated :: string

text \<open>
  The browser's \<open>localStorage\<close> holds text under the two keys the class uses. The text
  under \<open>alkosto-chat-history\<close> is given by what \<open>JSON.parse\<close> makes of it: the history
  object \<open>saveChatHistory\<close> wrote, or \<open>Unreadable\<close> for a text on which the \<open>try\<close> block of
  \<open>loadChatHistory\<close> throws before it reads the session id (the empty text, a text that
  is not JSON). Nothing but this class writes under the two keys. The window is missing
  on the server; with storage blocked every access to \<open>localStorage\<close> throws. The
  quota of the storage is not modelled: a write to available storage succeeds.
\<close>

datatype stored_history = Unreadable | History chat_history

record localStorage =
  session_item :: "string option"
  history_item :: "stored_history option"

datatype window = NoWindow | StorageBlocked | Browser localStorage

text \<open>What one call reads of the clock (\<open>Date.now()\<close>) and of
  \<open>Math.random().toString(36).substr(2, 9)\<close>.\<close>

record readings =
  now :: nat
  random_suffix :: string

definition new_session_id :: "readings \<Rightarrow> string" where
  "new_session_id c = ''session_'' @ decimal (now c) @ ''_'' @ random_suffix c"

text \<open>\<open>xs.slice(-n)\<close>: the last \<open>n\<close> elements, all of them when there are fewer.\<close>

definition slice_last :: "nat \<Rightarrow> 'a list \<Rightarrow> 'a list" where
  "slice_last n xs = drop (length xs - n) xs"

definition getSessionId :: "readings \<Rightarrow> window \<Rightarrow> string \<times> window" where
  "getSessionId c env =
     (case env of
        NoWindow \<Rightarrow> (''server-session'', env)
      | StorageBlocked \<Rightarrow> (''temp_'' @ decimal (now c), env)
      | Browser st \<Rightarrow>
          (case session_item st of
             Some existing \<Rightarrow>
               if existing \<noteq> [] then (existing, env)
               else (new_session_id c, Browser (st\<lparr>session_item := Some (new_session_id c)\<rparr>))
           | None \<Rightarrow> (new_session_id c, Browser (st\<lparr>session_item := Some (new_session_id c)\<rparr>))))"

text \<open>
  \<open>saveChatHistory\<close> and \<open>loadChatHistory\<close>. \<open>toISOString\<close> is the platform's
  \<open>Date.prototype.toISOString\<close>, which \<open>JSON.stringify\<close> applies to a \<open>Date\<close>, and
  \<open>newDate\<close> is the platform's \<open>new Date(string)\<close>; both are parameters.
\<close>

definition setItem_history :: "stored_history \<Rightarrow> window \<Rightarrow> window" where
  "setItem_history h env =
     (case env of Browser st \<Rightarrow> Browser (st\<lparr>history_item := Some h\<rparr>) | _ \<Rightarrow> env)"

definition saveChatHistory ::
    "(int \<Rightarrow> string) \<Rightarrow> readings \<Rightarrow> int Message list \<Rightarrow> window \<Rightarrow> window" where
  "saveChatHistory toISOString c messages env =
     (case env of
        NoWindow \<Rightarrow> env
      | StorageBlocked \<Rightarrow> env
      | Browser st \<Rightarrow>
          (case getSessionId c env of
             (sessionId, env1) \<Rightarrow>
               setItem_history
                 (History \<lparr>h_sessionId = sessionId,
                           h_messages = map (with_timestamp toISOString) (slice_last 50 messages),
                           lastUpdated = toISOString (int (now c))\<rparr>)
                 env1))"

definition loadChatHistory ::
    "(string \<Rightarrow> int) \<Rightarrow> readings \<Rightarrow> window \<Rightarrow> int Message list \<times> window" where
  "loadChatHistory newDate c env =
     (case env of
        NoWindow \<Rightarrow> ([], env)
      | StorageBlocked \<Rightarrow> ([], env)
      | Browser st \<Rightarrow>
          (case history_item st of
             None \<Rightarrow> ([], env)
           | Some Unreadable \<Rightarrow> ([], env)
           | Some (History h) \<Rightarrow>
               (case getSessionId c env of
                  (sessionId, env1) \<Rightarrow>
                    if h_sessionId h = sessionId
                    then (map (with_timestamp newDate) (h_messages h), env1)
                    else ([], env1))))"

definition resetSession :: "readings \<Rightarrow> window \<Rightarrow> window" where
  "resetSession c env =
     (case env of
        NoWindow \<Rightarrow> env
      | StorageBlocked \<Rightarrow> env
      | Browser st \<Rightarrow>
          Browser (st\<lparr>session_item := Some (new_session_id c), history_item := None\<rparr>))"

section \<open>Example inputs\<close>

text \<open>Inputs for the examples: a payload, a configuration, a transport step that fails
  as a network failure does and one that answers.\<close>

definition example_payload :: BackendResponse where
  "example_payload =
     \<lparr>message = ''Hola'', resp_confidence = HIGH, responseTime = 0, resp_products = Some [],
      resp_suggestions = None, success = True, agentType = ''GraduatedSearchAgent'',
      resp_phase = None, resp_sessionId = None\<rparr>"

definition example_config :: "int \<Rightarrow> ChatServiceConfig" where
  "example_config n = \<lparr>baseUrl = ''https://backend'', timeout = 30000, retries = n\<rparr>"

definition network_down :: "int \<times> fetch_outcome" where
  "network_down = (120, FetchRejects (Error ''TypeError'' ''Failed to fetch''))"

definition answers :: "int \<times> fetch_outcome" where
  "answers = (80, FetchResponds 200 ''OK'' (BodyOk example_payload))"

text \<open>Inputs for the examples: two messages a minute apart, the ISO texts of their
  timestamps as the platform's functions give and read them, and clock readings.\<close>

definition example_messages :: "int Message list" where
  "example_messages =
     [\<lparr>msg_id = ''user_1750075200000'', msg_text = ''Busco un televisor'', sender = User,
       timestamp = 1750075200000, msg_confidence = None, msg_responseTime = None,
       msg_suggestions = None, isError = None, msg_products = None\<rparr>,
      \<lparr>msg_id = ''assistant_1750075260000'', msg_text = ''Claro'', sender = Assistant,
       timestamp = 1750075260000, msg_confidence = Some HIGH, msg_responseTime = Some 850,
       msg_suggestions = Some [''Especifica tu presupuesto''], isError = Some False,
       msg_products = Some []\<rparr>]"

definition example_toISOString :: "int \<Rightarrow> string" where
  "example_toISOString t =
     (if t = 1750075200000 then ''2025-06-16T12:00:00.000Z''
      else if t = 1750075260000 then ''2025-06-16T12:01:00.000Z''
      else ''1970-01-01T00:00:00.000Z'')"

definition example_newDate :: "string \<Rightarrow> int" where
  "example_newDate s =
     (if s = ''2025-06-16T12:00:00.000Z'' then 1750075200000
      else if s = ''2025-06-16T12:01:00.000Z'' then 1750075260000
      else 0)"

definition example_readings :: readings where
  "example_readings = \<lparr>now = 1750075300000, random_suffix = ''k3x9q2m1z''\<rparr>"

section \<open>Facts about the string functions\<close>

lemma startsWith_map: "startsWith s t \<Longrightarrow> startsWith (map f s) (map f t)"
  by (induction s t rule: startsWith.induct) auto

lemma str_includes_map: "str_includes s t \<Longrightarrow> str_includes (map f s) (map f t)"
proof (induction s)
  case Nil
  then show ?case by simp
next
  case (Cons d s)
  from Cons.prems have "startsWith (d # s) t \<or> str_includes s t" by simp
  then show ?case
  proof
    assume "startsWith (d # s) t"
    then have "startsWith (map f (d # s)) (map f t)" by (rule startsWith_map)
    then show ?thesis by simp
  next
    assume "str_includes s t"
    then have "str_includes (map f s) (map f t)" by (rule Cons.IH)
    then show ?thesis by simp
  qed
qed

lemma startsWith_iff: "startsWith s t \<longleftrightarrow> (\<exists>q. s = t @ q)"
  by (induction s t rule: startsWith.induct) auto

lemma str_includes_iff: "str_includes s t \<longleftrightarrow> (\<exists>p q. s = p @ t @ q)"
proof (induction s)
  case Nil
  then show ?case by auto
next
  case (Cons d s)
  show ?case
  proof
    assume "str_includes (d # s) t"
    then have "startsWith (d # s) t \<or> str_includes s t" by simp
    then show "\<exists>p q. d # s = p @ t @ q"
    proof
      assume "startsWith (d # s) t"
      then obtain q where "d # s = t @ q" by (auto simp: startsWith_iff)
      then have "d # s = [] @ t @ q" by simp
      then show ?thesis by blast
    next
      assume "str_includes s t"
      then obtain p q where "s = p @ t @ q" using Cons.IH by blast
      then have "d # s = (d # p) @ t @ q" by simp
      then show ?thesis by blast
    qed
  next
    assume "\<exists>p q. d # s = p @ t @ q"
    then obtain p q where pq: "d # s = p @ t @ q" by blast
    show "str_includes (d # s) t"
    proof (cases p)
      case Nil
      with pq have "startsWith (d # s) t" by (auto simp: startsWith_iff)
      then show ?thesis by simp
    next
      case (Cons e p')
      with pq have "s = p' @ t @ q" by simp
      then have "str_includes s t" using Cons.IH by blast
      then show ?thesis by simp
    qed
  qed
qed

lemma join_Cons: "ys \<noteq> [] \<Longrightarrow> join sep (y # ys) = y @ sep @ join sep ys"
  by (cases ys) simp_all

lemma join_last: "str_includes (join sep (pre @ [x])) x"
proof -
  have "\<exists>p q. join sep (pre @ [x]) = p @ x @ q"
  proof (induction pre)
    case Nil
    have "join sep ([] @ [x]) = [] @ x @ []" by simp
    then show ?case by blast
  next
    case (Cons y pre)
    then obtain p q where "join sep (pre @ [x]) = p @ x @ q" by blast
    then have "join sep ((y # pre) @ [x]) = (y @ sep @ p) @ x @ q"
      by (simp add: join_Cons)
    then show ?case by blast
  qed
  then show ?thesis by (simp only: str_includes_iff)
qed

section \<open>The intent heuristic\<close>

lemma classify_compare:
  "str_includes txt ''compar'' \<or> str_includes txt ''diferencia'' \<or> str_includes txt ''vs'' \<Longrightarrow>
     classify txt = (Compare, 9 / 10)"
  by (simp add: classify_def)

lemma classify_confidence: "snd (classify txt) \<in> {7 / 10, 8 / 10, 85 / 100, 9 / 10}"
  by (simp add: classify_def)

lemma analyze_primary: "primary (analyzeUserIntent input) = fst (classify (toLowerCase input))"
  by (simp add: analyzeUserIntent_def Let_def)

lemma analyze_confidence: "confidence (analyzeUserIntent input) = snd (classify (toLowerCase input))"
  by (simp add: analyzeUserIntent_def Let_def)

lemma analyze_features: "features (entities (analyzeUserIntent input)) = None"
  by (simp add: analyzeUserIntent_def Let_def)

text \<open>
  Claim C1. Whenever the lower-cased input contains one of the compare triggers
  \<open>compar\<close>, \<open>diferencia\<close>, \<open>vs\<close>, \<open>analyzeUserIntent\<close> answers \<open>compare\<close> with confidence
  0.9, whatever other trigger words are present: the compare branch is tested first.
  In particular this holds when the input contains a trigger in any casing, that is a
  word \<open>v\<close> whose lower-casing is the trigger.
\<close>

theorem compare_trigger_first:
  "(str_includes (toLowerCase input) ''compar'' \<or> str_includes (toLowerCase input) ''diferencia''
      \<or> str_includes (toLowerCase input) ''vs'' \<longrightarrow>
      primary (analyzeUserIntent input) = Compare \<and> confidence (analyzeUserIntent input) = 9 / 10)
   \<and> (w \<in> {''compar'', ''diferencia'', ''vs''} \<and> toLowerCase v = w \<and> str_includes input' v \<longrightarrow>
      primary (analyzeUserIntent input') = Compare \<and> confidence (analyzeUserIntent input') = 9 / 10)"
proof (intro conjI impI)
  assume "str_includes (toLowerCase input) ''compar'' \<or> str_includes (toLowerCase input) ''diferencia''
      \<or> str_includes (toLowerCase input) ''vs''"
  then have c: "classify (toLowerCase input) = (Compare, 9 / 10)" by (rule classify_compare)
  show "primary (analyzeUserIntent input) = Compare" by (simp add: analyze_primary c)
  show "confidence (analyzeUserIntent input) = 9 / 10" by (simp add: analyze_confidence c)
next
  assume a: "w \<in> {''compar'', ''diferencia'', ''vs''} \<and> toLowerCase v = w \<and> str_includes input' v"
  then have "str_includes (toLowerCase input') (toLowerCase v)"
    unfolding toLowerCase_def by (intro str_includes_map) simp
  with a have "str_includes (toLowerCase input') ''compar''
      \<or> str_includes (toLowerCase input') ''diferencia'' \<or> str_includes (toLowerCase input') ''vs''"
    by auto
  then have c: "classify (toLowerCase input') = (Compare, 9 / 10)" by (rule classify_compare)
  show "primary (analyzeUserIntent input') = Compare" by (simp add: analyze_primary c)
  show "confidence (analyzeUserIntent input') = 9 / 10" by (simp add: analyze_confidence c)
qed

text \<open>
  Witness for C1: an input with \<open>DIFERENCIA\<close> in capitals next to question, search and
  purchase triggers, and an input with \<open>VS\<close> in capitals next to search and purchase
  triggers.
\<close>

theorem compare_trigger_first_witness:
  "str_includes (toLowerCase ''Que DIFERENCIA hay? Busco comprar'') ''diferencia''
   \<and> primary (analyzeUserIntent ''Que DIFERENCIA hay? Busco comprar'') = Compare
   \<and> confidence (analyzeUserIntent ''Que DIFERENCIA hay? Busco comprar'') = 9 / 10
   \<and> toLowerCase ''VS'' = ''vs''
   \<and> str_includes ''Samsung VS LG: quiero comprar'' ''VS''
   \<and> primary (analyzeUserIntent ''Samsung VS LG: quiero comprar'') = Compare
   \<and> confidence (analyzeUserIntent ''Samsung VS LG: quiero comprar'') = 9 / 10"
proof -
  have h1: "str_includes (toLowerCase ''Que DIFERENCIA hay? Busco comprar'') ''diferencia''"
    by code_simp
  have h2: "''vs'' \<in> {''compar'', ''diferencia'', ''vs''}" by simp
  have h3: "toLowerCase ''VS'' = ''vs''" by code_simp
  have h4: "str_includes ''Samsung VS LG: quiero comprar'' ''VS''" by simp
  show ?thesis
    using compare_trigger_first[of "''Que DIFERENCIA hay? Busco comprar''" "''vs''" "''VS''"
        "''Samsung VS LG: quiero comprar''"] h1 h2 h3 h4
    by blast
qed

lemma example_lower:
  "toLowerCase ''Busco un televisor Samsung con presupuesto de 1.500.000 a 2.000.000''
     = ''busco un televisor samsung con presupuesto de 1.500.000 a 2.000.000''"
  by code_simp

lemma example_matches:
  "price_match_all ''busco un televisor samsung con presupuesto de 1.500.000 a 2.000.000''
     = [''1.500.000'', ''2.000.000'']"
  by (simp add: price_match_here_def is_digit_def)

lemma example_prices:
  "map (\<lambda>p. parseInt (strip_separators p)) [''1.500.000'', ''2.000.000'']
     = [Some 1500000, Some 2000000]"
  by (simp add: parseInt_def strip_separators_def radix_digit_def is_space_def)

lemma example_range:
  "extract_priceRange ''busco un televisor samsung con presupuesto de 1.500.000 a 2.000.000''
     = Some \<lparr>range_min = Some 1500000, range_max = Some 2000000\<rparr>"
  unfolding extract_priceRange_def match_prices_def example_matches
  by (simp add: example_prices del: list.map)

text \<open>
  Claim C2. For the input \<open>Busco un televisor Samsung con presupuesto de 1.500.000 a
  2.000.000\<close> the entities are category \<open>televisor\<close>, brands \<open>[samsung]\<close> and the price
  range from 1500000 to 2000000; the pattern matches the two digit groups with their
  separators.
\<close>

theorem example_entities:
  "category (entities (analyzeUserIntent
       ''Busco un televisor Samsung con presupuesto de 1.500.000 a 2.000.000'')) = Some ''televisor''
   \<and> brands (entities (analyzeUserIntent
       ''Busco un televisor Samsung con presupuesto de 1.500.000 a 2.000.000'')) = Some [''samsung'']
   \<and> priceRange (entities (analyzeUserIntent
       ''Busco un televisor Samsung con presupuesto de 1.500.000 a 2.000.000''))
       = Some \<lparr>range_min = Some 1500000, range_max = Some 2000000\<rparr>
   \<and> price_match_all (toLowerCase
       ''Busco un televisor Samsung con presupuesto de 1.500.000 a 2.000.000'')
       = [''1.500.000'', ''2.000.000'']"
  unfolding analyzeUserIntent_def Let_def example_lower example_matches
  by (simp add: example_range categories_def brand_names_def)

lemma clarify_iff:
  "(''CLARIFY_USER_INTENT'' \<in> set (generateAgentInstructions ctx intent)) = (confidence intent < 6 / 10)"
  by (simp add: generateAgentInstructions_def split: option.split)

text \<open>
  Claim C9. The confidence \<open>analyzeUserIntent\<close> returns is one of 0.7, 0.8, 0.85 and 0.9,
  so at least 0.7; \<open>generateAgentInstructions\<close> emits \<open>CLARIFY_USER_INTENT\<close> exactly when
  the confidence of the intent is below 0.6; so the instruction is never emitted for an
  intent the heuristic derived, whatever the context.
\<close>

theorem heuristic_never_clarifies:
  "confidence (analyzeUserIntent input) \<in> {7 / 10, 8 / 10, 85 / 100, 9 / 10}
   \<and> 7 / 10 \<le> confidence (analyzeUserIntent input)
   \<and> (''CLARIFY_USER_INTENT'' \<in> set (generateAgentInstructions ctx intent)) = (confidence intent < 6 / 10)
   \<and> ''CLARIFY_USER_INTENT'' \<notin> set (generateAgentInstructions ctx' (analyzeUserIntent input))"
proof -
  have c: "confidence (analyzeUserIntent input) \<in> {7 / 10, 8 / 10, 85 / 100, 9 / 10}"
    unfolding analyze_confidence by (rule classify_confidence)
  then have l: "7 / 10 \<le> confidence (analyzeUserIntent input)" by auto
  then have "\<not> confidence (analyzeUserIntent input) < 6 / 10" by simp
  then have n: "''CLARIFY_USER_INTENT'' \<notin> set (generateAgentInstructions ctx' (analyzeUserIntent input))"
    by (simp add: clarify_iff)
  from c l n show ?thesis using clarify_iff[of ctx intent] by blast
qed

text \<open>Witness for C9: the empty input, in the context the service starts from.\<close>

theorem heuristic_never_clarifies_witness:
  "confidence (analyzeUserIntent '''') \<in> {7 / 10, 8 / 10, 85 / 100, 9 / 10}
   \<and> ''CLARIFY_USER_INTENT'' \<notin> set (generateAgentInstructions initial_context (analyzeUserIntent ''''))"
  using heuristic_never_clarifies[of "''''" initial_context "analyzeUserIntent ''''" initial_context]
  by blast

lemma missing_search:
  "primary (analyzeUserIntent input) = Search \<Longrightarrow>
     \<exists>pre. identifyMissingInfo (analyzeUserIntent input) = pre @ [''uso_principal'']"
  by (simp add: identifyMissingInfo_def analyze_features has_length_def)

lemma update_search:
  "primary intent = Search \<Longrightarrow>
   currentSearch (updateConversationContext input intent prev) =
     Some \<lparr>search_category = category (entities intent),
           criteria = extractCriteria input intent,
           phase = determineSearchPhase
             (turnCount (conversationState (updateConversationContext input intent prev))),
           missingInfo = identifyMissingInfo intent\<rparr>"
  by (simp add: updateConversationContext_def Let_def split: option.split)

text \<open>
  Claim C10. \<open>analyzeUserIntent\<close> never sets the features entity. So for every input
  classified \<open>search\<close>, and every previous context, the search context that
  \<open>createStructuredMessage\<close> produces lists \<open>uso_principal\<close> as missing, and the first
  agent instruction is the \<open>ASK_FOR\<close> line over that list, in which \<open>uso_principal\<close>
  occurs.
\<close>

theorem search_turn_asks_uso_principal:
  assumes "primary (analyzeUserIntent input) = Search"
  shows "features (entities (analyzeUserIntent input)) = None
     \<and> (\<exists>cs. currentSearch (snd (createStructuredMessage input prev)) = Some cs
            \<and> ''uso_principal'' \<in> set (missingInfo cs)
            \<and> hd (generateAgentInstructions (snd (createStructuredMessage input prev))
                    (fst (createStructuredMessage input prev)))
                = ''ASK_FOR: '' @ join '', '' (missingInfo cs)
            \<and> str_includes (join '', '' (missingInfo cs)) ''uso_principal'')"
proof -
  let ?i = "analyzeUserIntent input"
  let ?c = "updateConversationContext input ?i prev"
  obtain pre where pre: "identifyMissingInfo ?i = pre @ [''uso_principal'']"
    using missing_search[OF assms] by blast
  obtain cs where cs: "currentSearch ?c = Some cs" and mi: "missingInfo cs = identifyMissingInfo ?i"
    using update_search[OF assms, of input prev] by simp
  have m: "''uso_principal'' \<in> set (missingInfo cs)" by (simp add: mi pre)
  have ne: "missingInfo cs \<noteq> []" by (simp add: mi pre)
  have h: "hd (generateAgentInstructions ?c ?i) = ''ASK_FOR: '' @ join '', '' (missingInfo cs)"
    by (simp add: generateAgentInstructions_def cs assms ne)
  have j: "str_includes (join '', '' (missingInfo cs)) ''uso_principal''"
    unfolding mi pre by (rule join_last)
  show ?thesis
    unfolding createStructuredMessage_def Let_def fst_conv snd_conv
    using cs m h j analyze_features by blast
qed

lemma example_search_intent: "primary (analyzeUserIntent ''Busco un televisor'') = Search"
  unfolding analyze_primary by code_simp

text \<open>Witness for C10: a search input on the first turn.\<close>

theorem search_turn_asks_uso_principal_witness:
  "primary (analyzeUserIntent ''Busco un televisor'') = Search
   \<and> (\<exists>cs. currentSearch (snd (createStructuredMessage ''Busco un televisor'' None)) = Some cs
          \<and> ''uso_principal'' \<in> set (missingInfo cs)
          \<and> hd (generateAgentInstructions (snd (createStructuredMessage ''Busco un televisor'' None))
                  (fst (createStructuredMessage ''Busco un televisor'' None)))
              = ''ASK_FOR: '' @ join '', '' (missingInfo cs))"
  using search_turn_asks_uso_principal[OF example_search_intent, of None] example_search_intent
  by blast

lemma js_plus_exact:
  assumes "- (2 ^ 53) \<le> x + y" and "x + y \<le> 2 ^ 53"
  shows "js_plus x y = x + y"
proof -
  from assms have "nat (abs (x + y)) \<le> 2 ^ 53" by simp
  then show ?thesis by (simp only: js_plus_def round_to_double_def Let_def if_True)
qed

lemma update_turn:
  "turnCount (conversationState (updateConversationContext input intent prev))
     = js_plus (case prev of None \<Rightarrow> 0 | Some p \<Rightarrow> turnCount (conversationState p)) 1"
  by (simp add: updateConversationContext_def Let_def split: option.split)

lemma update_turn_exact:
  "- (2 ^ 53) \<le> turnCount (conversationState p) \<Longrightarrow> turnCount (conversationState p) < 2 ^ 53 \<Longrightarrow>
   turnCount (conversationState (updateConversationContext input intent (Some p)))
     = turnCount (conversationState p) + 1"
  by (simp add: update_turn js_plus_exact)

lemma update_turn_first:
  "turnCount (conversationState (updateConversationContext input intent None)) = 1"
  by (simp add: update_turn js_plus_exact)

lemma update_other:
  "primary intent \<noteq> Search \<Longrightarrow>
   currentSearch (updateConversationContext input intent prev)
     = (case prev of None \<Rightarrow> None | Some p \<Rightarrow> currentSearch p)"
  by (simp add: updateConversationContext_def Let_def split: option.split)

lemma chain_turn:
  "chain (Some p) inputs = Some c \<Longrightarrow> - (2 ^ 53) \<le> turnCount (conversationState p) \<Longrightarrow>
   turnCount (conversationState p) + int (length inputs) \<le> 2 ^ 53 \<Longrightarrow>
     turnCount (conversationState c) = turnCount (conversationState p) + int (length inputs)"
proof (induction inputs arbitrary: p)
  case Nil
  then show ?case by simp
next
  case (Cons i inputs)
  let ?q = "snd (createStructuredMessage i (Some p))"
  from Cons.prems(3) have lt: "turnCount (conversationState p) < 2 ^ 53" by simp
  have q: "turnCount (conversationState ?q) = turnCount (conversationState p) + 1"
    using Cons.prems(2) lt by (simp add: createStructuredMessage_def Let_def update_turn_exact)
  from Cons.prems(1) have a: "chain (Some ?q) inputs = Some c" by simp
  have b: "- (2 ^ 53) \<le> turnCount (conversationState ?q)" using Cons.prems(2) q by simp
  have d: "turnCount (conversationState ?q) + int (length inputs) \<le> 2 ^ 53"
    using Cons.prems(3) q by simp
  have "turnCount (conversationState c) = turnCount (conversationState ?q) + int (length inputs)"
    using a b d by (rule Cons.IH)
  with q show ?case by simp
qed

lemma chain_some: "\<exists>c. chain (Some p) inputs = Some c"
  by (induction inputs arbitrary: p) auto

lemma chain_none:
  "inputs \<noteq> [] \<Longrightarrow> int (length inputs) \<le> 2 ^ 53 \<Longrightarrow>
     \<exists>c. chain None inputs = Some c \<and> turnCount (conversationState c) = int (length inputs)"
proof (cases inputs)
  case Nil
  assume "inputs \<noteq> []"
  with Nil show ?thesis by simp
next
  case (Cons i rest)
  assume le: "int (length inputs) \<le> 2 ^ 53"
  let ?q = "snd (createStructuredMessage i None)"
  obtain c where c: "chain (Some ?q) rest = Some c" using chain_some by blast
  have q: "turnCount (conversationState ?q) = 1"
    by (simp add: createStructuredMessage_def Let_def update_turn_first)
  have b: "- (2 ^ 53) \<le> turnCount (conversationState ?q)" by (simp add: q)
  have d: "turnCount (conversationState ?q) + int (length rest) \<le> 2 ^ 53"
    using le by (simp add: q Cons)
  from chain_turn[OF c b d] have "turnCount (conversationState c) = int (length inputs)"
    by (simp add: q Cons)
  with c show ?thesis by (simp add: Cons)
qed

lemma example_hola_intent: "primary (analyzeUserIntent ''hola'') = Search"
  unfolding analyze_primary by code_simp

lemma example_question_intent: "primary (analyzeUserIntent ''cuanto cuesta?'') = Question"
  unfolding analyze_primary by code_simp

lemma round_past_53: "js_plus 9007199254740992 1 = 9007199254740992"
  by (simp add: js_plus_def round_to_double_def Let_def bitlen.simps)

text \<open>
  Claim C3 as stated fails in two places. In the chain of the inputs \<open>hola\<close>, \<open>hola\<close>,
  \<open>cuanto cuesta?\<close> from no context the third turn is a question, not a search: the
  context it produces has turn count 3 and still holds the search record of turn 2,
  whose phase is discovery, while the phase of turn count 3 is narrowing. And from a
  previous turn count of \<open>2^53\<close> the addition of 1 in doubles gives \<open>2^53\<close> back.
\<close>

theorem stale_phase_and_stuck_count:
  "(\<exists>c cs. chain None [''hola'', ''hola'', ''cuanto cuesta?''] = Some c
        \<and> turnCount (conversationState c) = 3
        \<and> currentSearch c = Some cs \<and> phase cs = Discovery
        \<and> determineSearchPhase 3 = Narrowing)
   \<and> turnCount (conversationState (updateConversationContext ''hola'' (analyzeUserIntent ''hola'')
        (Some (initial_context\<lparr>conversationState :=
                 (conversationState initial_context)\<lparr>turnCount := 9007199254740992\<rparr>\<rparr>))))
      = 9007199254740992"
proof (intro conjI)
  let ?i = "analyzeUserIntent ''hola''"
  let ?k = "analyzeUserIntent ''cuanto cuesta?''"
  let ?c1 = "updateConversationContext ''hola'' ?i None"
  let ?c2 = "updateConversationContext ''hola'' ?i (Some ?c1)"
  let ?c3 = "updateConversationContext ''cuanto cuesta?'' ?k (Some ?c2)"
  have ch: "chain None [''hola'', ''hola'', ''cuanto cuesta?''] = Some ?c3"
    by (simp add: createStructuredMessage_def Let_def)
  have t1: "turnCount (conversationState ?c1) = 1" by (rule update_turn_first)
  have t2: "turnCount (conversationState ?c2) = 2"
    using update_turn_exact[of ?c1 "''hola''" ?i] by (simp add: t1)
  have t3: "turnCount (conversationState ?c3) = 3"
    using update_turn_exact[of ?c2 "''cuanto cuesta?''" ?k] by (simp add: t2)
  have s3: "currentSearch ?c3 = currentSearch ?c2"
    using update_other[of ?k "''cuanto cuesta?''" "Some ?c2"] by (simp add: example_question_intent)
  obtain cs where cs: "currentSearch ?c2 = Some cs"
    and ph: "phase cs = determineSearchPhase (turnCount (conversationState ?c2))"
    using update_search[OF example_hola_intent, of "''hola''" "Some ?c1"] by simp
  have "phase cs = Discovery" by (simp add: ph t2 determineSearchPhase_def)
  moreover have "determineSearchPhase 3 = Narrowing" by (simp add: determineSearchPhase_def)
  ultimately show "\<exists>c cs. chain None [''hola'', ''hola'', ''cuanto cuesta?''] = Some c
        \<and> turnCount (conversationState c) = 3
        \<and> currentSearch c = Some cs \<and> phase cs = Discovery
        \<and> determineSearchPhase 3 = Narrowing"
    using ch t3 s3 cs by auto
next
  show "turnCount (conversationState (updateConversationContext ''hola'' (analyzeUserIntent ''hola'')
        (Some (initial_context\<lparr>conversationState :=
                 (conversationState initial_context)\<lparr>turnCount := 9007199254740992\<rparr>\<rparr>))))
      = 9007199254740992"
    by (simp add: update_turn round_past_53)
qed

text \<open>
  Claim C3, amended. While the previous turn count is an integer from \<open>-2^53\<close> to below
  \<open>2^53\<close>, the context a heuristic call produces has that turn count plus 1, and 1 with
  no previous context; so a chain of at most \<open>2^53\<close> calls started with no context ends
  at the number of calls, and a chain started from a context adds the number of calls
  as long as the sum stays at most \<open>2^53\<close>. The phase function \<open>determineSearchPhase\<close>
  gives discovery at 1 and 2, narrowing at 3 and 4, comparison at 5 and 6, decision
  from 7 on. On a turn classified \<open>search\<close> the search record of the produced context
  holds the phase of the new turn count; on any other turn the produced context holds
  the search record of the previous context, phase included, and none when there was
  no previous context.
\<close>

theorem turn_count_and_phase:
  "(- (2 ^ 53) \<le> turnCount (conversationState p) \<and> turnCount (conversationState p) < 2 ^ 53 \<longrightarrow>
      turnCount (conversationState (updateConversationContext input intent (Some p)))
        = turnCount (conversationState p) + 1)
   \<and> turnCount (conversationState (updateConversationContext input intent None)) = 0 + 1
   \<and> (inputs \<noteq> [] \<and> int (length inputs) \<le> 2 ^ 53 \<longrightarrow>
        (\<exists>c. chain None inputs = Some c \<and> turnCount (conversationState c) = int (length inputs)))
   \<and> (chain (Some p) inputs = Some c \<and> - (2 ^ 53) \<le> turnCount (conversationState p)
        \<and> turnCount (conversationState p) + int (length inputs) \<le> 2 ^ 53 \<longrightarrow>
        turnCount (conversationState c) = turnCount (conversationState p) + int (length inputs))
   \<and> determineSearchPhase 1 = Discovery \<and> determineSearchPhase 2 = Discovery
   \<and> determineSearchPhase 3 = Narrowing \<and> determineSearchPhase 4 = Narrowing
   \<and> determineSearchPhase 5 = Comparison \<and> determineSearchPhase 6 = Comparison
   \<and> (7 \<le> n \<longrightarrow> determineSearchPhase n = Decision)
   \<and> (primary intent = Search \<longrightarrow>
        (\<exists>cs. currentSearch (updateConversationContext input intent prev) = Some cs
           \<and> phase cs = determineSearchPhase
                (turnCount (conversationState (updateConversationContext input intent prev)))))
   \<and> (primary intent \<noteq> Search \<longrightarrow>
        currentSearch (updateConversationContext input intent prev)
          = (case prev of None \<Rightarrow> None | Some q \<Rightarrow> currentSearch q))"
proof (intro conjI impI)
  show "turnCount (conversationState (updateConversationContext input intent (Some p)))
      = turnCount (conversationState p) + 1"
    if "- (2 ^ 53) \<le> turnCount (conversationState p) \<and> turnCount (conversationState p) < 2 ^ 53"
    using that by (simp add: update_turn_exact)
  show "turnCount (conversationState (updateConversationContext input intent None)) = 0 + 1"
    by (simp add: update_turn_first)
  show "\<exists>c. chain None inputs = Some c \<and> turnCount (conversationState c) = int (length inputs)"
    if "inputs \<noteq> [] \<and> int (length inputs) \<le> 2 ^ 53" using that by (simp add: chain_none)
  show "turnCount (conversationState c) = turnCount (conversationState p) + int (length inputs)"
    if "chain (Some p) inputs = Some c \<and> - (2 ^ 53) \<le> turnCount (conversationState p)
        \<and> turnCount (conversationState p) + int (length inputs) \<le> 2 ^ 53"
    using that chain_turn[of p inputs c] by blast
  show "determineSearchPhase n = Decision" if "7 \<le> n"
    using that by (simp add: determineSearchPhase_def)
  show "\<exists>cs. currentSearch (updateConversationContext input intent prev) = Some cs
           \<and> phase cs = determineSearchPhase
                (turnCount (conversationState (updateConversationContext input intent prev)))"
    if "primary intent = Search" using update_search[OF that, of input prev] by simp
  show "currentSearch (updateConversationContext input intent prev)
          = (case prev of None \<Rightarrow> None | Some q \<Rightarrow> currentSearch q)"
    if "primary intent \<noteq> Search" using that by (rule update_other)
qed (simp_all add: determineSearchPhase_def)

text \<open>
  Witness for C3: three calls chained from no context, one call from the initial
  context, turn 9, a search input on the first turn, and a question after a search
  turn, which keeps the search record of that turn.
\<close>

theorem turn_count_and_phase_witness:
  "(\<exists>c. chain None [''hola'', ''Busco un televisor'', ''gracias''] = Some c
        \<and> turnCount (conversationState c) = 3)
   \<and> turnCount (conversationState (snd (createStructuredMessage ''hola'' (Some initial_context))))
        = turnCount (conversationState initial_context) + 1
   \<and> determineSearchPhase 9 = Decision
   \<and> (\<exists>cs. currentSearch (updateConversationContext ''Busco un televisor''
               (analyzeUserIntent ''Busco un televisor'') None) = Some cs
          \<and> phase cs = determineSearchPhase (turnCount (conversationState
               (updateConversationContext ''Busco un televisor''
                  (analyzeUserIntent ''Busco un televisor'') None))))
   \<and> currentSearch (updateConversationContext ''cuanto cuesta?'' (analyzeUserIntent ''cuanto cuesta?'')
        (Some (updateConversationContext ''hola'' (analyzeUserIntent ''hola'') None)))
      = currentSearch (updateConversationContext ''hola'' (analyzeUserIntent ''hola'') None)"
proof -
  let ?i = "analyzeUserIntent ''Busco un televisor''"
  let ?k = "analyzeUserIntent ''cuanto cuesta?''"
  let ?c = "snd (createStructuredMessage ''hola'' (Some initial_context))"
  let ?h = "updateConversationContext ''hola'' (analyzeUserIntent ''hola'') None"
  have a: "[''hola'', ''Busco un televisor'', ''gracias''] \<noteq> []
      \<and> int (length [''hola'', ''Busco un televisor'', ''gracias'']) \<le> 2 ^ 53" by simp
  have t0: "turnCount (conversationState initial_context) = 0" by (simp add: initial_context_def)
  have b: "chain (Some initial_context) [''hola''] = Some ?c
      \<and> - (2 ^ 53) \<le> turnCount (conversationState initial_context)
      \<and> turnCount (conversationState initial_context) + int (length [''hola'']) \<le> 2 ^ 53"
    by (simp add: t0)
  have d: "(7::int) \<le> 9" by simp
  have x: "(\<exists>c. chain None [''hola'', ''Busco un televisor'', ''gracias''] = Some c
             \<and> turnCount (conversationState c) = int (length [''hola'', ''Busco un televisor'', ''gracias'']))
      \<and> determineSearchPhase 9 = Decision
      \<and> (\<exists>cs. currentSearch (updateConversationContext ''Busco un televisor'' ?i None) = Some cs
             \<and> phase cs = determineSearchPhase (turnCount (conversationState
                  (updateConversationContext ''Busco un televisor'' ?i None))))"
    using turn_count_and_phase[of initial_context "''Busco un televisor''" ?i
        "[''hola'', ''Busco un televisor'', ''gracias'']" ?c 9 None]
      a d example_search_intent
    by blast
  have y: "turnCount (conversationState ?c)
             = turnCount (conversationState initial_context) + int (length [''hola''])"
    using turn_count_and_phase[of initial_context "''hola''" ?i "[''hola'']" ?c 9 None] b
    by blast
  have z: "currentSearch (updateConversationContext ''cuanto cuesta?'' ?k (Some ?h)) = currentSearch ?h"
    using turn_count_and_phase[of initial_context "''cuanto cuesta?''" ?k "[''hola'']" ?c 9 "Some ?h"]
      example_question_intent
    by simp
  have l3: "int (length [''hola'', ''Busco un televisor'', ''gracias'']) = 3" by simp
  have l1: "int (length [''hola'']) = 1" by simp
  show ?thesis using x y z unfolding l3 l1 by blast
qed

section \<open>The retrying request client\<close>

lemma send_success:
  "makeRequest (snd (tr (requests w))) = Inr p \<Longrightarrow>
   sendMessage tr w =
     (Success (p\<lparr>responseTime := fst (tr (requests w)), success := True\<rparr>),
      w\<lparr>svc := (svc w)\<lparr>retryCount := 0\<rparr>, requests := requests w + 1\<rparr>)"
  by (subst sendMessage.simps) simp

lemma send_retry:
  "fails_retryably tr (requests w) \<Longrightarrow> int (retryCount (svc w)) < retries (config (svc w)) \<Longrightarrow>
   sendMessage tr w =
     sendMessage tr (w\<lparr>svc := (svc w)\<lparr>retryCount := retryCount (svc w) + 1\<rparr>,
                       requests := requests w + 1,
                       delays := delays w @ [2 ^ (retryCount (svc w) + 1) * 1000]\<rparr>)"
  by (subst sendMessage.simps) (simp add: fails_retryably_def split: sum.splits)

lemma send_give_up:
  "makeRequest (snd (tr (requests w))) = Inl e \<Longrightarrow>
   \<not> (retryable (analyzeError e) \<and> int (retryCount (svc w)) < retries (config (svc w))) \<Longrightarrow>
   sendMessage tr w =
     (Failure (analyzeError e) (fst (tr (requests w))), w\<lparr>requests := requests w + 1\<rparr>)"
  by (subst sendMessage.simps) auto

lemma retry_until_success:
  "retries (config (svc w)) = int N \<Longrightarrow> retryCount (svc w) + d = N \<Longrightarrow>
   (\<forall>k<d. fails_retryably tr (requests w + k)) \<Longrightarrow>
   makeRequest (snd (tr (requests w + d))) = Inr p \<Longrightarrow>
   sendMessage tr w =
     (Success (p\<lparr>responseTime := fst (tr (requests w + d)), success := True\<rparr>),
      w\<lparr>svc := (svc w)\<lparr>retryCount := 0\<rparr>, requests := requests w + d + 1,
        delays := delays w @ map (\<lambda>k. 2 ^ k * 1000) [retryCount (svc w) + 1 ..< N + 1]\<rparr>)"
proof (induction d arbitrary: w)
  case 0
  then have "retryCount (svc w) = N" by simp
  with 0 show ?case by (simp add: send_success)
next
  case (Suc d)
  let ?w = "w\<lparr>svc := (svc w)\<lparr>retryCount := retryCount (svc w) + 1\<rparr>,
              requests := requests w + 1,
              delays := delays w @ [2 ^ (retryCount (svc w) + 1) * 1000]\<rparr>"
  from Suc.prems have f0: "fails_retryably tr (requests w)" by force
  from Suc.prems have lt: "int (retryCount (svc w)) < retries (config (svc w))" by simp
  have step: "sendMessage tr w = sendMessage tr ?w" using f0 lt by (rule send_retry)
  have a: "retries (config (svc ?w)) = int N" using Suc.prems by simp
  have b: "retryCount (svc ?w) + d = N" using Suc.prems by simp
  have c: "\<forall>k<d. fails_retryably tr (requests ?w + k)"
  proof (intro allI impI)
    fix k assume "k < d"
    then have "Suc k < Suc d" by simp
    with Suc.prems(3) have "fails_retryably tr (requests w + Suc k)" by blast
    then show "fails_retryably tr (requests ?w + k)" by simp
  qed
  have e: "makeRequest (snd (tr (requests ?w + d))) = Inr p" using Suc.prems by simp
  have u: "[retryCount (svc w) + 1 ..< N + 1] = (retryCount (svc w) + 1) # [retryCount (svc w) + 2 ..< N + 1]"
    using Suc.prems(2) by (simp add: upt_conv_Cons)
  show ?case
    unfolding step Suc.IH[OF a b c e] u by simp
qed

lemma backoff_sum: "sum_list (map (\<lambda>k. 2 ^ k * 1000) [1 ..< N + 1]) = 1000 * (\<Sum>k = 1..N. 2 ^ k :: nat)"
  by (induction N) (simp_all add: algebra_simps)


text \<open>
  Claim C4. With the maximum retry count \<open>N\<close> and the retry counter at 0, when the
  next \<open>N\<close> requests fail with failures classified retryable and the request after
  them succeeds, \<open>sendMessage\<close> returns the payload of that request (with the response
  time and \<open>success: true\<close> set) after exactly \<open>N + 1\<close> requests; it has asked
  \<open>delay\<close> for \<open>2^k\<close> seconds before retry \<open>k\<close>, for \<open>k\<close> from 1 to \<open>N\<close>, which add up to
  the sum of \<open>2^1\<close> to \<open>2^N\<close> seconds; the counter is back at 0.
\<close>

theorem retries_then_success:
  assumes "retryCount (svc w) = 0"
    and "retries (config (svc w)) = int N"
    and "\<forall>k<N. fails_retryably tr (requests w + k)"
    and "makeRequest (snd (tr (requests w + N))) = Inr p"
  shows "sendMessage tr w =
     (Success (p\<lparr>responseTime := fst (tr (requests w + N)), success := True\<rparr>),
      w\<lparr>svc := (svc w)\<lparr>retryCount := 0\<rparr>, requests := requests w + (N + 1),
        delays := delays w @ map (\<lambda>k. 2 ^ k * 1000) [1 ..< N + 1]\<rparr>)
     \<and> sum_list (map (\<lambda>k. 2 ^ k * 1000) [1 ..< N + 1]) = 1000 * (\<Sum>k = 1..N. 2 ^ k :: nat)"
proof -
  have "retryCount (svc w) + N = N" using assms(1) by simp
  from retry_until_success[OF assms(2) this assms(3) assms(4)]
  have "sendMessage tr w =
     (Success (p\<lparr>responseTime := fst (tr (requests w + N)), success := True\<rparr>),
      w\<lparr>svc := (svc w)\<lparr>retryCount := 0\<rparr>, requests := requests w + (N + 1),
        delays := delays w @ map (\<lambda>k. 2 ^ k * 1000) [1 ..< N + 1]\<rparr>)"
    unfolding assms(1) by (simp only: add.assoc add_0)
  then show ?thesis using backoff_sum by blast
qed

lemma network_down_request:
  "makeRequest (snd network_down) = Inl (Error ''TypeError'' ''Failed to fetch'')"
  by (simp add: network_down_def makeRequest_def)

lemma network_down_analyze:
  "analyzeError (Error ''TypeError'' ''Failed to fetch'') =
     \<lparr>error_type = Network, statusCode = None, retryable = True,
      userMessage = MsgNoConnection, technicalMessage = ''Failed to fetch''\<rparr>"
  by (simp add: analyzeError_def)

lemma answers_request: "makeRequest (snd answers) = Inr example_payload"
  by (simp add: answers_def makeRequest_def response_ok_def)


text \<open>Witness for C4: two network failures, then an answer, with \<open>N = 2\<close>.\<close>

theorem retries_then_success_witness:
  "sendMessage (\<lambda>k. if k < 2 then network_down else answers) (new_ChatService (example_config 2)) =
     (Success (example_payload\<lparr>responseTime := 80, success := True\<rparr>),
      \<lparr>svc = \<lparr>config = example_config 2, retryCount = 0\<rparr>, requests = 3, delays = [2000, 4000]\<rparr>)"
proof -
  let ?tr = "\<lambda>k::nat. if k < 2 then network_down else answers"
  let ?w = "new_ChatService (example_config 2)"
  have a: "retryCount (svc ?w) = 0" by (simp add: new_ChatService_def)
  have b: "retries (config (svc ?w)) = int 2" by (simp add: new_ChatService_def example_config_def)
  have c: "\<forall>k<2. fails_retryably ?tr (requests ?w + k)"
    by (simp add: fails_retryably_def new_ChatService_def network_down_request network_down_analyze)
  have d: "makeRequest (snd (?tr (requests ?w + 2))) = Inr example_payload"
    by (simp add: answers_request new_ChatService_def)
  have u: "[1 ..< 2 + 1] = [1, 2::nat]" by (simp add: upt_rec)
  show ?thesis
    using retries_then_success[OF a b c d]
    unfolding u by (simp add: new_ChatService_def answers_def)
qed

lemma decimal_400: "decimal 400 = ''400''"
  by (simp add: decimal.simps digit_char_def)

lemma request_400:
  "makeRequest (FetchResponds 400 statusText body) = Inl (Error ''Error'' (''HTTP_400: '' @ statusText))"
  by (simp add: makeRequest_def response_ok_def decimal_400)

lemma parse_400: "parseInt (CHR ''4'' # CHR ''0'' # CHR ''0'' # CHR '':'' # rest) = Some 400"
  by (simp add: parseInt_def is_space_def radix_digit_def)

lemma analyze_400:
  "\<not> str_includes statusText ''fetch'' \<Longrightarrow> \<not> str_includes statusText ''NetworkError'' \<Longrightarrow>
   analyzeError (Error nm (''HTTP_400: '' @ statusText)) =
     \<lparr>error_type = Validation, statusCode = Some 400, retryable = False,
      userMessage = MsgInvalidMessage, technicalMessage = ''HTTP_400: '' @ statusText\<rparr>"
  by (simp add: analyzeError_def split_second_def parse_400 at_least_500_def Let_def)

lemma http_400_single_attempt:
  assumes "snd (tr (requests w)) = FetchResponds 400 statusText body"
    and "\<not> str_includes statusText ''fetch''" and "\<not> str_includes statusText ''NetworkError''"
  shows "sendMessage tr w =
     (Failure \<lparr>error_type = Validation, statusCode = Some 400, retryable = False,
               userMessage = MsgInvalidMessage, technicalMessage = ''HTTP_400: '' @ statusText\<rparr>
        (fst (tr (requests w))),
      w\<lparr>requests := requests w + 1\<rparr>)"
proof -
  have m: "makeRequest (snd (tr (requests w))) = Inl (Error ''Error'' (''HTTP_400: '' @ statusText))"
    by (simp add: assms(1) request_400)
  have a: "analyzeError (Error ''Error'' (''HTTP_400: '' @ statusText)) =
     \<lparr>error_type = Validation, statusCode = Some 400, retryable = False,
      userMessage = MsgInvalidMessage, technicalMessage = ''HTTP_400: '' @ statusText\<rparr>"
    using assms(2,3) by (rule analyze_400)
  have "\<not> (retryable (analyzeError (Error ''Error'' (''HTTP_400: '' @ statusText)))
            \<and> int (retryCount (svc w)) < retries (config (svc w)))"
    by (simp only: a) simp
  with m have "sendMessage tr w =
      (Failure (analyzeError (Error ''Error'' (''HTTP_400: '' @ statusText))) (fst (tr (requests w))),
       w\<lparr>requests := requests w + 1\<rparr>)"
    by (rule send_give_up)
  then show ?thesis by (simp only: a)
qed

lemma analyze_400_fetch:
  "analyzeError (Error ''Error'' ''HTTP_400: Unable to fetch'') =
     \<lparr>error_type = Network, statusCode = None, retryable = True,
      userMessage = MsgNoConnection, technicalMessage = ''HTTP_400: Unable to fetch''\<rparr>"
  by (simp add: analyzeError_def)


text \<open>
  Claim C5, at a failing input. The claim holds for a status text that contains neither
  \<open>fetch\<close> nor \<open>NetworkError\<close> (\<open>http_400_single_attempt\<close> above). \<open>analyzeError\<close>
  looks for these words in the whole message first, and \<open>makeRequest\<close> puts the status
  text of the response into the message: a 400 response with the status text
  \<open>Unable to fetch\<close> is classified a retryable network failure, and with a maximum of
  3 retries \<open>sendMessage\<close> makes 4 requests.
\<close>

theorem http_400_status_text_fetch_retried:
  "sendMessage (\<lambda>k. (0, FetchResponds 400 ''Unable to fetch'' BodyInvalid))
       (new_ChatService \<lparr>baseUrl = ''https://backend'', timeout = 30000, retries = 3\<rparr>)
     = (Failure \<lparr>error_type = Network, statusCode = None, retryable = True,
                 userMessage = MsgNoConnection, technicalMessage = ''HTTP_400: Unable to fetch''\<rparr> 0,
        \<lparr>svc = \<lparr>config = \<lparr>baseUrl = ''https://backend'', timeout = 30000, retries = 3\<rparr>,
                retryCount = 3\<rparr>,
          requests = 4, delays = [2000, 4000, 8000]\<rparr>)"
  by (simp add: sendMessage.simps new_ChatService_def request_400 analyze_400_fetch)

lemma send_cases:
  obtains (ok) p where "makeRequest (snd (tr (requests w))) = Inr p"
  | (retry) e where "makeRequest (snd (tr (requests w))) = Inl e"
      "retryable (analyzeError e)" "int (retryCount (svc w)) < retries (config (svc w))"
  | (give_up) e where "makeRequest (snd (tr (requests w))) = Inl e"
      "\<not> (retryable (analyzeError e) \<and> int (retryCount (svc w)) < retries (config (svc w)))"
  by (cases "makeRequest (snd (tr (requests w)))") auto

lemma send_retry':
  "makeRequest (snd (tr (requests w))) = Inl e \<Longrightarrow> retryable (analyzeError e) \<Longrightarrow>
   int (retryCount (svc w)) < retries (config (svc w)) \<Longrightarrow>
   sendMessage tr w =
     sendMessage tr (w\<lparr>svc := (svc w)\<lparr>retryCount := retryCount (svc w) + 1\<rparr>,
                       requests := requests w + 1,
                       delays := delays w @ [2 ^ (retryCount (svc w) + 1) * 1000]\<rparr>)"
  by (subst sendMessage.simps) simp

lemma send_config: "config (svc (snd (sendMessage tr w))) = config (svc w)"
proof (induction tr w rule: sendMessage.induct)
  case (1 tr w)
  show ?case
  proof (cases rule: send_cases[of tr w])
    case (ok p)
    then show ?thesis by (simp add: send_success)
  next
    case (retry e)
    then show ?thesis using "1.IH"[of e] by (simp add: send_retry')
  next
    case (give_up e)
    then show ?thesis by (simp add: send_give_up)
  qed
qed

lemma send_counter:
  "(is_failure (fst (sendMessage tr w)) \<longrightarrow> retryCount (svc w) \<le> retryCount (svc (snd (sendMessage tr w))))
   \<and> (\<not> is_failure (fst (sendMessage tr w)) \<longrightarrow> retryCount (svc (snd (sendMessage tr w))) = 0)"
proof (induction tr w rule: sendMessage.induct)
  case (1 tr w)
  show ?case
  proof (cases rule: send_cases[of tr w])
    case (ok p)
    then show ?thesis by (simp add: send_success is_failure_def)
  next
    case (retry e)
    let ?w = "w\<lparr>svc := (svc w)\<lparr>retryCount := retryCount (svc w) + 1\<rparr>,
                requests := requests w + 1,
                delays := delays w @ [2 ^ (retryCount (svc w) + 1) * 1000]\<rparr>"
    have step: "sendMessage tr w = sendMessage tr ?w" using retry by (rule send_retry')
    have "(is_failure (fst (sendMessage tr ?w)) \<longrightarrow>
             retryCount (svc ?w) \<le> retryCount (svc (snd (sendMessage tr ?w))))
        \<and> (\<not> is_failure (fst (sendMessage tr ?w)) \<longrightarrow>
             retryCount (svc (snd (sendMessage tr ?w))) = 0)"
      using "1.IH"[of e] retry by simp
    then show ?thesis unfolding step by auto
  next
    case (give_up e)
    then show ?thesis by (simp add: send_give_up is_failure_def)
  qed
qed

lemma send_exhausts:
  "fst (sendMessage tr w) = Failure e t \<Longrightarrow> retryable e \<Longrightarrow>
     retries (config (svc w)) \<le> int (retryCount (svc (snd (sendMessage tr w))))
     \<and> (int (retryCount (svc w)) \<le> retries (config (svc w)) \<longrightarrow>
          int (retryCount (svc (snd (sendMessage tr w)))) = retries (config (svc w)))"
proof (induction tr w rule: sendMessage.induct)
  case (1 tr w)
  show ?case
  proof (cases rule: send_cases[of tr w])
    case (ok p)
    with "1.prems" show ?thesis by (simp add: send_success)
  next
    case (retry e')
    with "1.prems" "1.IH"[of e'] show ?thesis by (simp add: send_retry')
  next
    case (give_up e')
    with "1.prems" show ?thesis by (auto simp: send_give_up)
  qed
qed

lemma send_exhausted:
  assumes "retries (config (svc w)) \<le> int (retryCount (svc w))"
  shows "requests (snd (sendMessage tr w)) = requests w + 1
     \<and> delays (snd (sendMessage tr w)) = delays w
     \<and> (is_failure (fst (sendMessage tr w)) \<longrightarrow>
          retryCount (svc (snd (sendMessage tr w))) = retryCount (svc w))"
proof (cases rule: send_cases[of tr w])
  case (ok p)
  then show ?thesis by (simp add: send_success is_failure_def)
next
  case (retry e)
  with assms show ?thesis by simp
next
  case (give_up e)
  then show ?thesis by (simp add: send_give_up)
qed

lemma send_all_Suc_snd:
  "snd (send_all tr w (Suc n)) = snd (send_all tr (snd (sendMessage tr w)) n)"
  by (simp add: split_beta)

lemma send_all_Suc_fst:
  "fst (send_all tr w (Suc n)) = fst (sendMessage tr w) # fst (send_all tr (snd (sendMessage tr w)) n)"
  by (simp add: split_beta)

lemma send_all_exhausted:
  "retries (config (svc w)) \<le> int (retryCount (svc w)) \<Longrightarrow>
   \<forall>r\<in>set (fst (send_all tr w n)). is_failure r \<Longrightarrow>
   requests (snd (send_all tr w n)) = requests w + n
   \<and> delays (snd (send_all tr w n)) = delays w
   \<and> retries (config (svc (snd (send_all tr w n)))) \<le> int (retryCount (svc (snd (send_all tr w n))))"
proof (induction n arbitrary: w)
  case 0
  then show ?case by simp
next
  case (Suc n)
  let ?w1 = "snd (sendMessage tr w)"
  from Suc.prems(2) have "\<forall>r\<in>set (fst (sendMessage tr w) # fst (send_all tr ?w1 n)). is_failure r"
    by (simp only: send_all_Suc_fst)
  then have f: "is_failure (fst (sendMessage tr w))"
    and fs: "\<forall>r\<in>set (fst (send_all tr ?w1 n)). is_failure r"
    by simp_all
  note x = send_exhausted[OF Suc.prems(1), of tr]
  have r1: "requests ?w1 = requests w + 1" using x by (rule conjunct1)
  have d1: "delays ?w1 = delays w" using x by (elim conjE)
  have c1: "retryCount (svc ?w1) = retryCount (svc w)" using x f by (elim conjE) (erule mp)
  have "config (svc ?w1) = config (svc w)" by (rule send_config)
  with c1 Suc.prems(1) have e1: "retries (config (svc ?w1)) \<le> int (retryCount (svc ?w1))"
    by (simp only:)
  note y = Suc.IH[OF e1 fs]
  have "requests (snd (send_all tr ?w1 n)) = requests w + Suc n"
    using y r1 by (elim conjE) (simp only: add_Suc_right add_Suc add_0_right One_nat_def)
  moreover have "delays (snd (send_all tr ?w1 n)) = delays w"
    using y d1 by (elim conjE) (simp only:)
  moreover have "retries (config (svc (snd (send_all tr ?w1 n))))
      \<le> int (retryCount (svc (snd (send_all tr ?w1 n))))"
    using y by (elim conjE)
  ultimately show ?case by (simp only: send_all_Suc_snd) 
qed

lemma send_all_last:
  "snd (send_all tr w (Suc n)) = snd (sendMessage tr (snd (send_all tr w n)))"
proof (induction n arbitrary: w)
  case 0
  show ?case by (simp add: split_beta)
next
  case (Suc n)
  have "snd (send_all tr w (Suc (Suc n))) = snd (send_all tr (snd (sendMessage tr w)) (Suc n))"
    by (rule send_all_Suc_snd)
  also have "\<dots> = snd (sendMessage tr (snd (send_all tr (snd (sendMessage tr w)) n)))"
    by (rule Suc.IH)
  also have "\<dots> = snd (sendMessage tr (snd (send_all tr w (Suc n))))"
    by (simp only: send_all_Suc_snd)
  finally show ?case .
qed

lemma send_all_until_success:
  assumes "retries (config (svc w)) \<le> int (retryCount (svc w))"
    and "\<forall>r\<in>set (fst (send_all tr w n)). is_failure r"
  shows "requests (snd (send_all tr w (Suc n))) = requests w + Suc n
     \<and> delays (snd (send_all tr w (Suc n))) = delays w"
proof -
  let ?w1 = "snd (send_all tr w n)"
  note x = send_all_exhausted[OF assms]
  have w1: "requests ?w1 = requests w + n" "delays ?w1 = delays w"
    "retries (config (svc ?w1)) \<le> int (retryCount (svc ?w1))"
    using x by simp_all
  note y = send_exhausted[OF w1(3), of tr]
  have "requests (snd (sendMessage tr ?w1)) = requests ?w1 + 1"
    "delays (snd (sendMessage tr ?w1)) = delays ?w1"
    using y by simp_all
  with w1(1,2) have "requests (snd (sendMessage tr ?w1)) = requests w + Suc n"
    "delays (snd (sendMessage tr ?w1)) = delays w" by simp_all
  then show ?thesis by (simp only: send_all_last)
qed

lemma example_first_call:
  "sendMessage (\<lambda>k. if k = 2 then answers else network_down) (new_ChatService (example_config 1)) =
     (Failure \<lparr>error_type = Network, statusCode = None, retryable = True,
                userMessage = MsgNoConnection, technicalMessage = ''Failed to fetch''\<rparr> 120,
      \<lparr>svc = \<lparr>config = example_config 1, retryCount = 1\<rparr>, requests = 2, delays = [2000]\<rparr>)"
  by (simp add: sendMessage.simps new_ChatService_def example_config_def
        network_down_request network_down_analyze answers_request)
    (simp add: network_down_def answers_def)

lemma example_second_call:
  "sendMessage (\<lambda>k. if k = 2 then answers else network_down)
       \<lparr>svc = \<lparr>config = example_config 1, retryCount = 1\<rparr>, requests = 2, delays = [2000]\<rparr> =
     (Success (example_payload\<lparr>responseTime := 80, success := True\<rparr>),
      \<lparr>svc = \<lparr>config = example_config 1, retryCount = 0\<rparr>, requests = 3, delays = [2000]\<rparr>)"
  by (simp add: sendMessage.simps example_config_def
        network_down_request network_down_analyze answers_request)
    (simp add: network_down_def answers_def)

lemma example_third_call:
  "sendMessage (\<lambda>k. if k = 2 then answers else network_down)
       \<lparr>svc = \<lparr>config = example_config 1, retryCount = 0\<rparr>, requests = 3, delays = [2000]\<rparr> =
     (Failure \<lparr>error_type = Network, statusCode = None, retryable = True,
                userMessage = MsgNoConnection, technicalMessage = ''Failed to fetch''\<rparr> 120,
      \<lparr>svc = \<lparr>config = example_config 1, retryCount = 1\<rparr>, requests = 5, delays = [2000, 2000]\<rparr>)"
  by (simp add: sendMessage.simps example_config_def
        network_down_request network_down_analyze answers_request)
    (simp add: network_down_def answers_def)

text \<open>
  Claim C6 as stated fails. With a maximum of 1 retry, the first call fails twice and
  leaves the counter at the maximum; the second call succeeds at once and sets the
  counter to 0; the third call, a later call on the same instance, fails, waits and
  retries: it makes two requests, not one.
\<close>

theorem later_call_retries_after_success:
  "(let tr = (\<lambda>k. if k = 2 then answers else network_down);
        w0 = new_ChatService (example_config 1);
        w1 = snd (sendMessage tr w0);
        w2 = snd (sendMessage tr w1);
        w3 = snd (sendMessage tr w2)
    in is_failure (fst (sendMessage tr w0))
       \<and> int (retryCount (svc w1)) = retries (config (svc w1))
       \<and> \<not> is_failure (fst (sendMessage tr w1))
       \<and> is_failure (fst (sendMessage tr w2))
       \<and> requests w3 = requests w2 + 2
       \<and> delays w3 = delays w2 @ [2000])"
  unfolding Let_def example_first_call snd_conv fst_conv example_second_call example_third_call
  by (simp add: is_failure_def example_config_def)

text \<open>
  Claim C6, amended. A call that ends in failure never lowers the retry counter, and a
  call that ends in success leaves it at 0: only a successful attempt sets the counter
  back. A call that starts with the counter at most the maximum and ends in a failure
  classified retryable leaves the counter at the maximum. With the counter at the
  maximum or beyond, a call makes exactly one request and asks for no delay, and when it
  fails the counter stays where it was. So after the budget is exhausted, of the calls
  that follow, all up to and including the first that succeeds make exactly one request
  each: if the first \<open>n\<close> of them fail, \<open>n + 1\<close> of them make \<open>n + 1\<close> requests.
\<close>

theorem counter_reset_only_by_success:
  "(is_failure (fst (sendMessage tr w)) \<longrightarrow>
      retryCount (svc w) \<le> retryCount (svc (snd (sendMessage tr w))))
   \<and> (\<not> is_failure (fst (sendMessage tr w)) \<longrightarrow> retryCount (svc (snd (sendMessage tr w))) = 0)
   \<and> (fst (sendMessage tr w) = Failure e t \<and> retryable e
        \<and> int (retryCount (svc w)) \<le> retries (config (svc w)) \<longrightarrow>
      int (retryCount (svc (snd (sendMessage tr w)))) = retries (config (svc w)))
   \<and> (retries (config (svc w')) \<le> int (retryCount (svc w')) \<longrightarrow>
      requests (snd (sendMessage tr w')) = requests w' + 1
      \<and> delays (snd (sendMessage tr w')) = delays w'
      \<and> (is_failure (fst (sendMessage tr w')) \<longrightarrow>
           retryCount (svc (snd (sendMessage tr w'))) = retryCount (svc w')))
   \<and> (retries (config (svc w')) \<le> int (retryCount (svc w'))
        \<and> (\<forall>r\<in>set (fst (send_all tr w' n)). is_failure r) \<longrightarrow>
      requests (snd (send_all tr w' (Suc n))) = requests w' + Suc n
      \<and> delays (snd (send_all tr w' (Suc n))) = delays w')"
proof (intro conjI)
  show "is_failure (fst (sendMessage tr w)) \<longrightarrow>
      retryCount (svc w) \<le> retryCount (svc (snd (sendMessage tr w)))"
    using send_counter[of tr w] by (rule conjunct1)
  show "\<not> is_failure (fst (sendMessage tr w)) \<longrightarrow> retryCount (svc (snd (sendMessage tr w))) = 0"
    using send_counter[of tr w] by (rule conjunct2)
  show "fst (sendMessage tr w) = Failure e t \<and> retryable e
        \<and> int (retryCount (svc w)) \<le> retries (config (svc w)) \<longrightarrow>
      int (retryCount (svc (snd (sendMessage tr w)))) = retries (config (svc w))"
    using send_exhausts[of tr w e t] by blast
  show "retries (config (svc w')) \<le> int (retryCount (svc w')) \<longrightarrow>
      requests (snd (sendMessage tr w')) = requests w' + 1
      \<and> delays (snd (sendMessage tr w')) = delays w'
      \<and> (is_failure (fst (sendMessage tr w')) \<longrightarrow>
           retryCount (svc (snd (sendMessage tr w'))) = retryCount (svc w'))"
    using send_exhausted[of w' tr] by (intro impI)
  show "retries (config (svc w')) \<le> int (retryCount (svc w'))
        \<and> (\<forall>r\<in>set (fst (send_all tr w' n)). is_failure r) \<longrightarrow>
      requests (snd (send_all tr w' (Suc n))) = requests w' + Suc n
      \<and> delays (snd (send_all tr w' (Suc n))) = delays w'"
    using send_all_until_success[of w' tr n] by (intro impI) (elim conjE)
qed

lemma all_down_first_call:
  "sendMessage (\<lambda>k. network_down) (new_ChatService (example_config 1)) =
     (Failure \<lparr>error_type = Network, statusCode = None, retryable = True,
                userMessage = MsgNoConnection, technicalMessage = ''Failed to fetch''\<rparr> 120,
      \<lparr>svc = \<lparr>config = example_config 1, retryCount = 1\<rparr>, requests = 2, delays = [2000]\<rparr>)"
  by (simp add: sendMessage.simps new_ChatService_def example_config_def
        network_down_request network_down_analyze)
    (simp add: network_down_def)

lemma all_down_later_call:
  "sendMessage (\<lambda>k. network_down)
       \<lparr>svc = \<lparr>config = example_config 1, retryCount = 1\<rparr>, requests = r, delays = d\<rparr> =
     (Failure \<lparr>error_type = Network, statusCode = None, retryable = True,
                userMessage = MsgNoConnection, technicalMessage = ''Failed to fetch''\<rparr> 120,
      \<lparr>svc = \<lparr>config = example_config 1, retryCount = 1\<rparr>, requests = r + 1, delays = d\<rparr>)"
  by (simp add: sendMessage.simps example_config_def network_down_request network_down_analyze)
    (simp add: network_down_def)

lemma all_down_send_all:
  "send_all (\<lambda>k. network_down)
       \<lparr>svc = \<lparr>config = example_config 1, retryCount = 1\<rparr>, requests = r, delays = d\<rparr> n =
     (replicate n (Failure \<lparr>error_type = Network, statusCode = None, retryable = True,
                userMessage = MsgNoConnection, technicalMessage = ''Failed to fetch''\<rparr> 120),
      \<lparr>svc = \<lparr>config = example_config 1, retryCount = 1\<rparr>, requests = r + n, delays = d\<rparr>)"
proof (induction n arbitrary: r)
  case 0
  show ?case by simp
next
  case (Suc n)
  show ?case
    unfolding send_all.simps all_down_later_call Let_def prod.case Suc.IH by simp
qed

text \<open>
  Witness for C6: the network stays down and the maximum is 1. The first call exhausts
  the budget; the three calls after it make one request each.
\<close>

theorem counter_reset_only_by_success_witness:
  "int (retryCount (svc (snd (sendMessage (\<lambda>k. network_down) (new_ChatService (example_config 1)))))) = 1
   \<and> requests (snd (send_all (\<lambda>k. network_down)
        \<lparr>svc = \<lparr>config = example_config 1, retryCount = 1\<rparr>, requests = 2, delays = [2000]\<rparr> 3)) = 5
   \<and> delays (snd (send_all (\<lambda>k. network_down)
        \<lparr>svc = \<lparr>config = example_config 1, retryCount = 1\<rparr>, requests = 2, delays = [2000]\<rparr> 3)) = [2000]"
proof -
  let ?tr = "\<lambda>k::nat. network_down"
  let ?w = "new_ChatService (example_config 1)"
  let ?e = "\<lparr>error_type = Network, statusCode = None, retryable = True,
             userMessage = MsgNoConnection, technicalMessage = ''Failed to fetch''\<rparr>"
  let ?w' = "\<lparr>svc = \<lparr>config = example_config 1, retryCount = 1\<rparr>, requests = 2, delays = [2000]\<rparr>"
  have a: "fst (sendMessage ?tr ?w) = Failure ?e 120 \<and> retryable ?e
      \<and> int (retryCount (svc ?w)) \<le> retries (config (svc ?w))"
    by (simp add: all_down_first_call) (simp add: new_ChatService_def example_config_def)
  have b: "retries (config (svc ?w)) = 1" by (simp add: new_ChatService_def example_config_def)
  have c1: "retries (config (svc ?w')) \<le> int (retryCount (svc ?w'))"
    by (simp add: example_config_def)
  have c2: "\<forall>r\<in>set (fst (send_all ?tr ?w' 2)). is_failure r"
    unfolding all_down_send_all by (simp add: is_failure_def)
  have d: "Suc 2 = 3" by simp
  have x: "int (retryCount (svc (snd (sendMessage ?tr ?w)))) = retries (config (svc ?w))"
    using counter_reset_only_by_success[of ?tr ?w ?e 120 ?w' 2] a by blast
  have y: "requests (snd (send_all ?tr ?w' (Suc 2))) = requests ?w' + Suc 2
      \<and> delays (snd (send_all ?tr ?w' (Suc 2))) = delays ?w'"
    using counter_reset_only_by_success[of ?tr ?w ?e 120 ?w' 2] c1 c2 by blast
  have r: "requests ?w' + 3 = 5" by simp
  have dl: "delays ?w' = [2000]" by simp
  from x have x': "int (retryCount (svc (snd (sendMessage ?tr ?w)))) = 1" unfolding b .
  from y have y1: "requests (snd (send_all ?tr ?w' 3)) = 5"
    unfolding d r by (rule conjunct1)
  from y have y2: "delays (snd (send_all ?tr ?w' 3)) = [2000]"
    unfolding d dl by (rule conjunct2)
  from x' y1 y2 show ?thesis by (intro conjI)
qed

section \<open>Session and chat history\<close>

lemma with_timestamp_inverse:
  "g (f (timestamp m)) = timestamp m \<Longrightarrow> with_timestamp g (with_timestamp f m) = m"
  by (cases m) (simp add: with_timestamp_def)

lemma map_with_timestamp_inverse:
  "\<forall>m\<in>set ms. g (f (timestamp m)) = timestamp m \<Longrightarrow>
     map (with_timestamp g) (map (with_timestamp f) ms) = ms"
  by (induction ms) (simp_all add: with_timestamp_inverse)

lemma new_session_id_nonempty: "new_session_id c \<noteq> []"
  by (simp add: new_session_id_def)

lemma getSessionId_browser:
  "\<exists>sid st1. getSessionId c (Browser st) = (sid, Browser st1)
      \<and> session_item st1 = Some sid \<and> sid \<noteq> [] \<and> history_item st1 = history_item st"
  by (simp add: getSessionId_def new_session_id_nonempty split: option.split)

lemma getSessionId_stable:
  "session_item st = Some sid \<Longrightarrow> sid \<noteq> [] \<Longrightarrow> getSessionId c (Browser st) = (sid, Browser st)"
  by (simp add: getSessionId_def)

lemma slice_last_facts:
  "slice_last n xs = drop (length xs - n) xs \<and> length (slice_last n xs) = min n (length xs)
     \<and> (length xs \<le> n \<longrightarrow> slice_last n xs = xs)"
  by (auto simp: slice_last_def)





lemma load_nonempty:
  "fst (loadChatHistory newDate c env) \<noteq> [] \<Longrightarrow>
     \<exists>st h. env = Browser st \<and> history_item st = Some (History h)
           \<and> h_sessionId h = fst (getSessionId c env) \<and> h_messages h \<noteq> []"
  by (auto simp: loadChatHistory_def split: window.splits option.splits stored_history.splits prod.splits if_splits)

lemma reset_load: "fst (loadChatHistory newDate c2 (resetSession c1 env)) = []"
  by (cases env) (simp_all add: loadChatHistory_def resetSession_def)

lemma stale_record:
  "sid \<noteq> [] \<Longrightarrow> h_sessionId h \<noteq> sid \<Longrightarrow>
   fst (loadChatHistory newDate c (Browser \<lparr>session_item = Some sid, history_item = Some (History h)\<rparr>)) = []"
  by (simp add: loadChatHistory_def getSessionId_def)


lemma example_new_id: "new_session_id example_readings = ''session_1750075300000_k3x9q2m1z''"
  by (simp add: new_session_id_def example_readings_def decimal.simps digit_char_def)



end
